theory Spec2Isabelle
  imports Complex_Main
begin

section \<open>Array values\<close>

text \<open>
  The engines of \<^verbatim>\<open>src/algorithm/nmf.py\<close> compute on numpy arrays of doubles. An array
  entry is modelled as an exact real number or one of the three special values that
  numpy produces instead of raising: a division by zero or a logarithm of zero gives
  an infinity, an undefined operation gives NaN, and both propagate silently through
  the update rules. Rounding, overflow, underflow and the sign of zero are not
  modelled: finite results are exact and every zero behaves as \<open>+0\<close>. A statement
  below that a result is finite, or that two results computed by different operations
  are equal, is therefore a statement about the exact computation; the doubles of the
  code can overflow to an infinity and differ from the exact result by rounding. Where
  a property depends on the rounding, the rounded computation is written out in the
  section on float64.
\<close>

datatype fl = Fin real | PInf | NInf | NaN

definition inf_signed :: "real \<Rightarrow> fl" where
  "inf_signed s = (if s = 0 then NaN else if 0 < s then PInf else NInf)"

instantiation fl :: "{plus, uminus, times, divide, ord}"
begin

fun uminus_fl :: "fl \<Rightarrow> fl" where
  "uminus_fl (Fin a) = Fin (- a)"
| "uminus_fl PInf = NInf"
| "uminus_fl NInf = PInf"
| "uminus_fl NaN = NaN"

fun plus_fl :: "fl \<Rightarrow> fl \<Rightarrow> fl" where
  "plus_fl (Fin a) (Fin b) = Fin (a + b)"
| "plus_fl NaN _ = NaN"
| "plus_fl _ NaN = NaN"
| "plus_fl PInf NInf = NaN"
| "plus_fl NInf PInf = NaN"
| "plus_fl PInf _ = PInf"
| "plus_fl _ PInf = PInf"
| "plus_fl NInf _ = NInf"
| "plus_fl _ NInf = NInf"

fun times_fl :: "fl \<Rightarrow> fl \<Rightarrow> fl" where
  "times_fl (Fin a) (Fin b) = Fin (a * b)"
| "times_fl NaN _ = NaN"
| "times_fl _ NaN = NaN"
| "times_fl (Fin a) PInf = inf_signed a"
| "times_fl (Fin a) NInf = inf_signed (- a)"
| "times_fl PInf (Fin b) = inf_signed b"
| "times_fl NInf (Fin b) = inf_signed (- b)"
| "times_fl PInf PInf = PInf"
| "times_fl NInf NInf = PInf"
| "times_fl PInf NInf = NInf"
| "times_fl NInf PInf = NInf"

fun divide_fl :: "fl \<Rightarrow> fl \<Rightarrow> fl" where
  "divide_fl (Fin a) (Fin b) = (if b = 0 then inf_signed a else Fin (a / b))"
| "divide_fl NaN _ = NaN"
| "divide_fl _ NaN = NaN"
| "divide_fl (Fin a) _ = Fin 0"
| "divide_fl PInf (Fin b) = (if 0 \<le> b then PInf else NInf)"
| "divide_fl NInf (Fin b) = (if 0 \<le> b then NInf else PInf)"
| "divide_fl _ _ = NaN"

fun less_fl :: "fl \<Rightarrow> fl \<Rightarrow> bool" where
  "less_fl (Fin a) (Fin b) = (a < b)"
| "less_fl NaN _ = False"
| "less_fl _ NaN = False"
| "less_fl NInf NInf = False"
| "less_fl NInf _ = True"
| "less_fl PInf _ = False"
| "less_fl _ PInf = True"
| "less_fl _ NInf = False"

fun less_eq_fl :: "fl \<Rightarrow> fl \<Rightarrow> bool" where
  "less_eq_fl (Fin a) (Fin b) = (a \<le> b)"
| "less_eq_fl NaN _ = False"
| "less_eq_fl _ NaN = False"
| "less_eq_fl NInf _ = True"
| "less_eq_fl _ PInf = True"
| "less_eq_fl _ _ = False"

instance ..

end

instantiation fl :: "{minus, inverse}"
begin

definition minus_fl :: "fl \<Rightarrow> fl \<Rightarrow> fl" where
  "minus_fl a b = a + (- b)"

definition inverse_fl :: "fl \<Rightarrow> fl" where
  "inverse_fl a = Fin 1 div a"

instance ..

end

text \<open>
  \<^verbatim>\<open>x ** y\<close> with a Python scalar exponent \<open>y\<close> (the C function \<open>pow\<close>): anything to
  the power 0 is 1, a zero base gives 0 or infinity by the sign of the exponent, a
  negative base is defined for integral exponents only.
\<close>

fun fl_pow :: "fl \<Rightarrow> real \<Rightarrow> fl" where
  "fl_pow (Fin r) y =
     (if y = 0 then Fin 1
      else if r = 0 then (if 0 < y then Fin 0 else PInf)
      else if of_int \<lfloor>y\<rfloor> = y then Fin (r powi \<lfloor>y\<rfloor>)
      else if 0 < r then Fin (r powr y)
      else NaN)"
| "fl_pow PInf y = (if y = 0 then Fin 1 else if 0 < y then PInf else Fin 0)"
| "fl_pow NInf y =
     (if y = 0 then Fin 1
      else if y < 0 then Fin 0
      else if of_int \<lfloor>y\<rfloor> = y \<and> odd \<lfloor>y\<rfloor> then NInf
      else PInf)"
| "fl_pow NaN y = (if y = 0 then Fin 1 else NaN)"

text \<open>\<^verbatim>\<open>np.sqrt\<close>, \<^verbatim>\<open>np.log\<close> and \<^verbatim>\<open>np.maximum\<close> (which propagates NaN).\<close>

fun fl_sqrt :: "fl \<Rightarrow> fl" where
  "fl_sqrt (Fin r) = (if 0 \<le> r then Fin (sqrt r) else NaN)"
| "fl_sqrt PInf = PInf"
| "fl_sqrt NInf = NaN"
| "fl_sqrt NaN = NaN"

fun fl_log :: "fl \<Rightarrow> fl" where
  "fl_log (Fin r) = (if 0 < r then Fin (ln r) else if r = 0 then NInf else NaN)"
| "fl_log PInf = PInf"
| "fl_log NInf = NaN"
| "fl_log NaN = NaN"

fun fl_maximum :: "fl \<Rightarrow> fl \<Rightarrow> fl" where
  "fl_maximum NaN _ = NaN"
| "fl_maximum _ NaN = NaN"
| "fl_maximum a b = (if a < b then b else a)"

text \<open>Sum of \<open>f 0, \<dots>, f (n - 1)\<close>: \<^verbatim>\<open>.sum()\<close> along an axis of length \<open>n\<close>.\<close>

fun fsum :: "nat \<Rightarrow> (nat \<Rightarrow> fl) \<Rightarrow> fl" where
  "fsum 0 f = Fin 0"
| "fsum (Suc n) f = fsum n f + f n"


section \<open>Arrays\<close>

text \<open>
  A two-dimensional array is its entry function; its shape is kept beside it (the
  shape of the target, and \<open>n_basis\<close>). The operations below are the numpy expressions
  of the source, entry by entry; \<open>matmul n\<close> is \<^verbatim>\<open>A @ B\<close> with inner dimension \<open>n\<close>, and
  \<open>floor_eps eps A\<close> is the in-place assignment \<^verbatim>\<open>A[A < eps] = eps\<close>.
\<close>

type_synonym matrix = "nat \<Rightarrow> nat \<Rightarrow> fl"

definition matmul :: "nat \<Rightarrow> matrix \<Rightarrow> matrix \<Rightarrow> matrix" where
  "matmul n A B = (\<lambda>i j. fsum n (\<lambda>k. A i k * B k j))"

definition transpose_m :: "matrix \<Rightarrow> matrix" where
  "transpose_m A = (\<lambda>i j. A j i)"

definition floor_eps :: "real \<Rightarrow> matrix \<Rightarrow> matrix" where
  "floor_eps e A = (\<lambda>i j. if A i j < Fin e then Fin e else A i j)"

definition mpow :: "matrix \<Rightarrow> real \<Rightarrow> matrix" where
  "mpow A y = (\<lambda>i j. fl_pow (A i j) y)"

definition msqrt :: "matrix \<Rightarrow> matrix" where
  "msqrt A = (\<lambda>i j. fl_sqrt (A i j))"

definition emul :: "matrix \<Rightarrow> matrix \<Rightarrow> matrix" where
  "emul A B = (\<lambda>i j. A i j * B i j)"

definition ediv :: "matrix \<Rightarrow> matrix \<Rightarrow> matrix" where
  "ediv A B = (\<lambda>i j. A i j / B i j)"

definition eadd :: "matrix \<Rightarrow> matrix \<Rightarrow> matrix" where
  "eadd A B = (\<lambda>i j. A i j + B i j)"

definition smul :: "real \<Rightarrow> matrix \<Rightarrow> matrix" where
  "smul c A = (\<lambda>i j. Fin c * A i j)"

definition sdiv :: "real \<Rightarrow> matrix \<Rightarrow> matrix" where
  "sdiv c A = (\<lambda>i j. Fin c / A i j)"

definition msum :: "nat \<Rightarrow> nat \<Rightarrow> matrix \<Rightarrow> fl" where
  "msum n m A = fsum n (\<lambda>i. fsum m (\<lambda>j. A i j))"

text \<open>The target of a real engine: a numpy array of shape \<open>(n_bins, n_frames)\<close>.\<close>

record target_array =
  n_bins :: nat
  n_frames :: nat
  entries :: matrix

section \<open>The real NMF engines\<close>

text \<open>
  The exceptions the engines raise, with the message of the source where it has one
  (quotation marks inside a message are left out).
\<close>

datatype error =
  AssertionError string
| ValueError string
| ZeroDivisionError
| AttributeError

datatype engine_class = EUCNMF | KLNMF | ISNMF | TNMF | CauchyNMF

text \<open>
  The five subclasses of \<^verbatim>\<open>NMFbase\<close> hold the same attributes, so one record with the
  class as a tag models them. \<open>nu\<close> exists on \<^verbatim>\<open>tNMF\<close> only. \<open>divergence\<close> is the
  elementwise function imported from \<^verbatim>\<open>criterion.divergence\<close> by \<^verbatim>\<open>KLNMF\<close> and \<^verbatim>\<open>ISNMF\<close>;
  that module is not part of the sources, so the function is a parameter of their
  constructors. \<open>target\<close>, \<open>basis\<close> and \<open>activation\<close> are attributes that exist only
  once \<^verbatim>\<open>__call__\<close> and \<^verbatim>\<open>_reset\<close> have assigned them.
\<close>

record nmf =
  cls :: engine_class
  n_basis :: nat
  loss :: "fl list"
  eps :: real
  domain :: real
  algorithm :: string
  nu :: real
  divergence :: "fl \<Rightarrow> fl \<Rightarrow> fl"
  target :: "target_array option"
  basis :: "matrix option"
  activation :: "matrix option"

text \<open>\<^verbatim>\<open>NMFbase.__init__\<close>: \<open>n_basis\<close>, an empty loss trace and \<open>eps\<close>.\<close>

definition NMFbase_init :: "engine_class \<Rightarrow> nat \<Rightarrow> real \<Rightarrow> nmf" where
  "NMFbase_init c nb e =
     \<lparr>cls = c, n_basis = nb, loss = [], eps = e, domain = 0, algorithm = [], nu = 0,
      divergence = (\<lambda>x z. NaN), target = None, basis = None, activation = None\<rparr>"

text \<open>
  The constructors. A failing \<^verbatim>\<open>assert\<close> raises out of \<^verbatim>\<open>__init__\<close>, so no engine
  object is returned: the result is \<open>Inl\<close>.
\<close>

definition EUCNMF_init :: "nat \<Rightarrow> real \<Rightarrow> string \<Rightarrow> real \<Rightarrow> error + nmf" where
  "EUCNMF_init nb d alg e =
     (let self = NMFbase_init EUCNMF nb e in
      if \<not> (1 \<le> d \<and> d \<le> 2) then Inl (AssertionError ''1 <= domain <= 2 is not satisfied.'')
      else if alg \<noteq> ''mm'' then Inl (AssertionError ''algorithm must be mm.'')
      else Inr (self\<lparr>domain := d, algorithm := alg\<rparr>))"

definition KLNMF_init :: "(fl \<Rightarrow> fl \<Rightarrow> fl) \<Rightarrow> nat \<Rightarrow> real \<Rightarrow> string \<Rightarrow> real \<Rightarrow> error + nmf" where
  "KLNMF_init generalized_kl_divergence nb d alg e =
     (let self = NMFbase_init KLNMF nb e in
      if \<not> (1 \<le> d \<and> d \<le> 2) then Inl (AssertionError ''1 <= domain <= 2 is not satisfied.'')
      else if alg \<noteq> ''mm'' then Inl (AssertionError ''algorithm must be mm.'')
      else Inr (self\<lparr>domain := d, algorithm := alg, divergence := generalized_kl_divergence\<rparr>))"

definition ISNMF_init :: "(fl \<Rightarrow> fl \<Rightarrow> fl) \<Rightarrow> nat \<Rightarrow> real \<Rightarrow> string \<Rightarrow> real \<Rightarrow> error + nmf" where
  "ISNMF_init is_divergence nb d alg e =
     (let self = NMFbase_init ISNMF nb e in
      if \<not> (1 \<le> d \<and> d \<le> 2) then Inl (AssertionError ''1 <= domain <= 2 is not satisfied.'')
      else Inr (self\<lparr>domain := d, algorithm := alg, divergence := is_divergence\<rparr>))"

definition tNMF_init :: "nat \<Rightarrow> real \<Rightarrow> real \<Rightarrow> string \<Rightarrow> real \<Rightarrow> error + nmf" where
  "tNMF_init nb n d alg e =
     (let self = NMFbase_init TNMF nb e in
      if \<not> (1 \<le> d \<and> d \<le> 2) then Inl (AssertionError ''1 <= domain <= 2 is not satisfied.'')
      else Inr (self\<lparr>nu := n, domain := d, algorithm := alg\<rparr>))"

definition CauchyNMF_init :: "nat \<Rightarrow> real \<Rightarrow> string \<Rightarrow> real \<Rightarrow> error + nmf" where
  "CauchyNMF_init nb d alg e =
     (let self = NMFbase_init CauchyNMF nb e in
      if d \<noteq> 2 then Inl (AssertionError ''Only domain = 2 is supported.'')
      else Inr (self\<lparr>domain := d, algorithm := alg\<rparr>))"


subsection \<open>The update rules\<close>

text \<open>
  Each rule is the body of the method of the same name, line by line, on the local
  variables \<open>T\<close> and \<open>V\<close>; as in the source, a name that is assigned again shadows its
  earlier value. A division of Python scalars by zero raises \<^verbatim>\<open>ZeroDivisionError\<close>; a
  division inside an array expression never raises. The result is the pair assigned
  to \<^verbatim>\<open>self.basis, self.activation\<close> in the last line of the method.
\<close>

definition EUCNMF_update_once_mm ::
  "nmf \<Rightarrow> target_array \<Rightarrow> matrix \<Rightarrow> matrix \<Rightarrow> error + matrix \<times> matrix" where
  "EUCNMF_update_once_mm self Z T V =
     (let d = domain self; e = eps self in
      if d = 0 \<or> d = 4 then Inl ZeroDivisionError
      else
        let V_transpose = transpose_m V;
            TV = floor_eps e (matmul (n_basis self) T V);
            TVV = floor_eps e (matmul (n_frames Z) (mpow TV ((4 - d) / d)) V_transpose);
            numerator = matmul (n_frames Z) (emul (entries Z) (mpow TV ((2 - d) / d))) V_transpose;
            T = emul T (mpow (ediv numerator TVV) (d / (4 - d)));
            T_transpose = transpose_m T;
            TV = floor_eps e (matmul (n_basis self) T V);
            TTV = floor_eps e (matmul (n_bins Z) T_transpose (mpow TV ((4 - d) / d)));
            numerator = matmul (n_bins Z) T_transpose (emul (entries Z) (mpow TV ((2 - d) / d)));
            V = emul V (mpow (ediv numerator TTV) (d / (4 - d)))
        in Inr (T, V))"

definition KLNMF_update_once_mm ::
  "nmf \<Rightarrow> target_array \<Rightarrow> matrix \<Rightarrow> matrix \<Rightarrow> error + matrix \<times> matrix" where
  "KLNMF_update_once_mm self Z T V =
     (let d = domain self; e = eps self in
      if d = 0 then Inl ZeroDivisionError
      else
        let V_transpose = transpose_m V;
            TV = floor_eps e (matmul (n_basis self) T V);
            TVV = floor_eps e (matmul (n_frames Z) (mpow TV ((2 - d) / d)) V_transpose);
            division = ediv (entries Z) TV;
            T = emul T (mpow (ediv (matmul (n_frames Z) division V_transpose) TVV) (d / 2));
            T_transpose = transpose_m T;
            TV = floor_eps e (matmul (n_basis self) T V);
            TTV = floor_eps e (matmul (n_bins Z) T_transpose (mpow TV ((2 - d) / d)));
            division = ediv (entries Z) TV;
            V = emul V (mpow (ediv (matmul (n_bins Z) T_transpose division) TTV) (d / 2))
        in Inr (T, V))"

definition ISNMF_update_once_mm ::
  "nmf \<Rightarrow> target_array \<Rightarrow> matrix \<Rightarrow> matrix \<Rightarrow> error + matrix \<times> matrix" where
  "ISNMF_update_once_mm self Z T V =
     (let d = domain self; e = eps self in
      if d = 0 \<or> d = - 2 then Inl ZeroDivisionError
      else
        let V_transpose = transpose_m V;
            TV = floor_eps e (matmul (n_basis self) T V);
            division = ediv (entries Z) (mpow TV ((d + 2) / d));
            TV_inverse = sdiv 1 TV;
            TVV = floor_eps e (matmul (n_frames Z) TV_inverse V_transpose);
            T = emul T (mpow (ediv (matmul (n_frames Z) division V_transpose) TVV) (d / (d + 2)));
            T_transpose = transpose_m T;
            TV = floor_eps e (matmul (n_basis self) T V);
            division = ediv (entries Z) (mpow TV ((d + 2) / d));
            TV_inverse = sdiv 1 TV;
            TTV = floor_eps e (matmul (n_bins Z) T_transpose TV_inverse);
            V = emul V (mpow (ediv (matmul (n_bins Z) T_transpose division) TTV) (d / (d + 2)))
        in Inr (T, V))"

definition ISNMF_update_once_me ::
  "nmf \<Rightarrow> target_array \<Rightarrow> matrix \<Rightarrow> matrix \<Rightarrow> error + matrix \<times> matrix" where
  "ISNMF_update_once_me self Z T V =
     (let d = domain self; e = eps self in
      if d \<noteq> 2 then Inl (AssertionError ''Only domain = 2 is supported.'')
      else
        let V_transpose = transpose_m V;
            TV = floor_eps e (matmul (n_basis self) T V);
            division = ediv (entries Z) (mpow TV ((d + 2) / d));
            TV_inverse = sdiv 1 TV;
            TVV = floor_eps e (matmul (n_frames Z) TV_inverse V_transpose);
            T = emul T (ediv (matmul (n_frames Z) division V_transpose) TVV);
            T_transpose = transpose_m T;
            TV = floor_eps e (matmul (n_basis self) T V);
            division = ediv (entries Z) (mpow TV ((d + 2) / d));
            TV_inverse = sdiv 1 TV;
            TTV = floor_eps e (matmul (n_bins Z) T_transpose TV_inverse);
            V = emul V (ediv (matmul (n_bins Z) T_transpose division) TTV)
        in Inr (T, V))"

text \<open>
  \<^verbatim>\<open>harmonic = 1 / (2 / ((2 + nu) * TV) + nu / ((2 + nu) * Z))\<close> of \<^verbatim>\<open>tNMF\<close>, an array
  expression; \<open>Zm\<close> is \<^verbatim>\<open>np.maximum(target, eps)\<close>.
\<close>

definition harmonic_of :: "real \<Rightarrow> matrix \<Rightarrow> matrix \<Rightarrow> matrix" where
  "harmonic_of n TV Zm = sdiv 1 (eadd (sdiv 2 (smul (2 + n) TV)) (sdiv n (smul (2 + n) Zm)))"

definition tNMF_update_once_mm ::
  "nmf \<Rightarrow> target_array \<Rightarrow> matrix \<Rightarrow> matrix \<Rightarrow> error + matrix \<times> matrix" where
  "tNMF_update_once_mm self Z T V =
     (let d = domain self; n = nu self; e = eps self in
      if d \<noteq> 2 then Inl (AssertionError ''domain is expected 2.'')
      else
        let Zm = (\<lambda>i j. fl_maximum (entries Z i j) (Fin e));
            V_transpose = transpose_m V;
            TV = floor_eps e (matmul (n_basis self) T V);
            harmonic = harmonic_of n TV Zm;
            division = ediv harmonic (mpow TV 2);
            TV_inverse = sdiv 1 TV;
            TVV = floor_eps e (matmul (n_frames Z) TV_inverse V_transpose);
            T = emul T (msqrt (ediv (matmul (n_frames Z) division V_transpose) TVV));
            T_transpose = transpose_m T;
            TV = floor_eps e (matmul (n_basis self) T V);
            harmonic = harmonic_of n TV Zm;
            division = ediv harmonic (mpow TV 2);
            TV_inverse = sdiv 1 TV;
            TTV = floor_eps e (matmul (n_bins Z) T_transpose TV_inverse);
            V = emul V (msqrt (ediv (matmul (n_bins Z) T_transpose division) TTV))
        in Inr (T, V))"

text \<open>
  The broadcast sums of \<^verbatim>\<open>CauchyNMF\<close>:
  \<^verbatim>\<open>np.sum(V[np.newaxis,:,:] / TV[:,np.newaxis,:], axis=2)\<close>, of shape (bins, bases), and
  \<^verbatim>\<open>np.sum(T[:,:,np.newaxis] / TV[:,np.newaxis,:], axis=0)\<close>, of shape (bases, frames).
\<close>

definition sum_frames_div :: "nat \<Rightarrow> matrix \<Rightarrow> matrix \<Rightarrow> matrix" where
  "sum_frames_div nf V TV = (\<lambda>i k. fsum nf (\<lambda>j. V k j / TV i j))"

definition sum_bins_div :: "nat \<Rightarrow> matrix \<Rightarrow> matrix \<Rightarrow> matrix" where
  "sum_bins_div nb T TV = (\<lambda>k j. fsum nb (\<lambda>i. T i k / TV i j))"

definition CauchyNMF_update_once_naive ::
  "nmf \<Rightarrow> target_array \<Rightarrow> matrix \<Rightarrow> matrix \<Rightarrow> error + matrix \<times> matrix" where
  "CauchyNMF_update_once_naive self Z T V =
     (let d = domain self; e = eps self in
      if d \<noteq> 2 then Inl (AssertionError ''Only domain = 2 is supported.'')
      else
        let TV = floor_eps e (matmul (n_basis self) T V);
            numerator = sum_frames_div (n_frames Z) V TV;
            C = floor_eps e (eadd (smul 2 (entries Z)) (mpow TV 2));
            TVC = ediv TV C;
            denominator = floor_eps e (matmul (n_frames Z) (smul 3 TVC) (transpose_m V));
            T = emul T (ediv numerator denominator);
            TV = floor_eps e (matmul (n_basis self) T V);
            numerator = sum_bins_div (n_bins Z) T TV;
            C = floor_eps e (eadd (smul 2 (entries Z)) (mpow TV 2));
            TVC = ediv TV C;
            denominator = floor_eps e (matmul (n_bins Z) (smul 3 (transpose_m T)) TVC);
            V = emul V (ediv numerator denominator)
        in Inr (T, V))"

definition CauchyNMF_update_once_mm ::
  "nmf \<Rightarrow> target_array \<Rightarrow> matrix \<Rightarrow> matrix \<Rightarrow> error + matrix \<times> matrix" where
  "CauchyNMF_update_once_mm self Z T V =
     (let d = domain self; e = eps self in
      if d \<noteq> 2 then Inl (AssertionError ''Only domain = 2 is supported.'')
      else
        let TV = floor_eps e (matmul (n_basis self) T V);
            numerator = sum_frames_div (n_frames Z) V TV;
            C = floor_eps e (eadd (smul 2 (entries Z)) (mpow TV 2));
            TVC = ediv TV C;
            denominator = floor_eps e (matmul (n_frames Z) (smul 3 TVC) (transpose_m V));
            T = emul T (msqrt (ediv numerator denominator));
            TV = floor_eps e (matmul (n_basis self) T V);
            numerator = sum_bins_div (n_bins Z) T TV;
            C = floor_eps e (eadd (smul 2 (entries Z)) (mpow TV 2));
            TVC = ediv TV C;
            denominator = floor_eps e (matmul (n_bins Z) (smul 3 (transpose_m T)) TVC);
            V = emul V (msqrt (ediv numerator denominator))
        in Inr (T, V))"

text \<open>In \<^verbatim>\<open>update_once_me\<close> the product \<^verbatim>\<open>T @ V\<close> is not floored before it divides.\<close>

definition CauchyNMF_update_once_me ::
  "nmf \<Rightarrow> target_array \<Rightarrow> matrix \<Rightarrow> matrix \<Rightarrow> error + matrix \<times> matrix" where
  "CauchyNMF_update_once_me self Z T V =
     (let d = domain self; e = eps self in
      if d \<noteq> 2 then Inl (AssertionError ''Only domain = 2 is supported.'')
      else
        let TV = matmul (n_basis self) T V;
            TV2Z = floor_eps e (eadd (mpow TV 2) (entries Z));
            A = matmul (n_frames Z) (smul (3 / 4) (ediv TV TV2Z)) (transpose_m V);
            B = sum_frames_div (n_frames Z) V TV;
            denominator = floor_eps e (eadd A (msqrt (eadd (mpow A 2) (emul (smul 2 B) A))));
            T = emul T (ediv B denominator);
            TV = matmul (n_basis self) T V;
            TV2Z = floor_eps e (eadd (mpow TV 2) (entries Z));
            A = matmul (n_bins Z) (smul (3 / 4) (transpose_m T)) (ediv TV TV2Z);
            B = sum_bins_div (n_bins Z) T TV;
            denominator = floor_eps e (eadd A (msqrt (eadd (mpow A 2) (emul (smul 2 B) A))));
            V = emul V (ediv B denominator)
        in Inr (T, V))"

definition CauchyNMF_update_once_mm_fast ::
  "nmf \<Rightarrow> target_array \<Rightarrow> matrix \<Rightarrow> matrix \<Rightarrow> error + matrix \<times> matrix" where
  "CauchyNMF_update_once_mm_fast self Z T V =
     (let d = domain self; e = eps self in
      if d \<noteq> 2 then Inl (AssertionError ''Only domain = 2 is supported.'')
      else
        let TV = matmul (n_basis self) T V;
            C = eadd (smul 2 (entries Z)) (mpow TV 2);
            CTV = floor_eps e (emul C TV);
            ZCTV = ediv (entries Z) CTV;
            C = floor_eps e C;
            TVC = ediv TV C;
            numerator = matmul (n_frames Z) ZCTV (transpose_m V);
            denominator = floor_eps e (matmul (n_frames Z) TVC (transpose_m V));
            T = emul T (msqrt (ediv numerator denominator));
            TV = matmul (n_basis self) T V;
            C = eadd (smul 2 (entries Z)) (mpow TV 2);
            CTV = floor_eps e (emul C TV);
            ZCTV = ediv (entries Z) CTV;
            C = floor_eps e C;
            TVC = ediv TV C;
            numerator = matmul (n_bins Z) (transpose_m T) ZCTV;
            denominator = floor_eps e (matmul (n_bins Z) (transpose_m T) TVC);
            V = emul V (msqrt (ediv numerator denominator))
        in Inr (T, V))"

text \<open>
  The body of each update rule is a function of the engine, the target and the two
  factors. \<open>update_rule\<close> is the dispatch of \<^verbatim>\<open>update_once\<close> on \<^verbatim>\<open>self.algorithm\<close> followed
  by the rule it selects.
\<close>

definition update_rule ::
  "nmf \<Rightarrow> target_array \<Rightarrow> matrix \<Rightarrow> matrix \<Rightarrow> error + matrix \<times> matrix" where
  "update_rule self Z T V =
     (case cls self of
        EUCNMF \<Rightarrow>
          if algorithm self = ''mm'' then EUCNMF_update_once_mm self Z T V
          else Inl (ValueError (''Not support '' @ algorithm self @ '' based update.''))
      | KLNMF \<Rightarrow>
          if algorithm self = ''mm'' then KLNMF_update_once_mm self Z T V
          else Inl (ValueError (''Not support '' @ algorithm self @ '' based update.''))
      | ISNMF \<Rightarrow>
          if algorithm self = ''mm'' then ISNMF_update_once_mm self Z T V
          else if algorithm self = ''me'' then ISNMF_update_once_me self Z T V
          else Inl (ValueError (''Not support '' @ algorithm self @ '' based update.''))
      | TNMF \<Rightarrow>
          if algorithm self = ''mm'' then tNMF_update_once_mm self Z T V
          else Inl (ValueError (''Not support '' @ algorithm self @ '' based update.''))
      | CauchyNMF \<Rightarrow>
          if algorithm self = ''naive-multipricative'' then CauchyNMF_update_once_naive self Z T V
          else if algorithm self = ''mm'' then CauchyNMF_update_once_mm self Z T V
          else if algorithm self = ''me'' then CauchyNMF_update_once_me self Z T V
          else if algorithm self = ''mm_fast'' then CauchyNMF_update_once_mm_fast self Z T V
          else Inl (ValueError (''Not support '' @ algorithm self @ '' based update.'')))"

text \<open>
  The order in which the method \<^verbatim>\<open>update_once\<close> fails on an engine. The dispatch on
  \<^verbatim>\<open>self.algorithm\<close> comes first and reads no other attribute: an algorithm that the
  class does not dispatch on raises \<^verbatim>\<open>ValueError\<close> even when no target was ever set
  (\<open>dispatch_error\<close>). The selected rule then reads \<^verbatim>\<open>self.target\<close>, which raises
  \<^verbatim>\<open>AttributeError\<close> when the attribute does not exist; the rules of \<^verbatim>\<open>ISNMF\<close> (\<^verbatim>\<open>me\<close>),
  \<^verbatim>\<open>tNMF\<close> and \<^verbatim>\<open>CauchyNMF\<close> assert \<^verbatim>\<open>domain == 2\<close> next (\<open>domain_assertion\<close>); only then
  are \<^verbatim>\<open>self.basis\<close> and \<^verbatim>\<open>self.activation\<close> read and the arithmetic done.
\<close>

definition dispatch_error :: "nmf \<Rightarrow> error option" where
  "dispatch_error self =
     (let unsupported = Some (ValueError (''Not support '' @ algorithm self @ '' based update.''))
      in case cls self of
           EUCNMF \<Rightarrow> if algorithm self = ''mm'' then None else unsupported
         | KLNMF \<Rightarrow> if algorithm self = ''mm'' then None else unsupported
         | ISNMF \<Rightarrow>
             if algorithm self = ''mm'' \<or> algorithm self = ''me'' then None else unsupported
         | TNMF \<Rightarrow> if algorithm self = ''mm'' then None else unsupported
         | CauchyNMF \<Rightarrow>
             if algorithm self = ''naive-multipricative'' \<or> algorithm self = ''mm''
                \<or> algorithm self = ''me'' \<or> algorithm self = ''mm_fast''
             then None else unsupported)"

definition domain_assertion :: "nmf \<Rightarrow> error option" where
  "domain_assertion self =
     (case cls self of
        EUCNMF \<Rightarrow> None
      | KLNMF \<Rightarrow> None
      | ISNMF \<Rightarrow>
          if algorithm self = ''me'' \<and> domain self \<noteq> 2
          then Some (AssertionError ''Only domain = 2 is supported.'') else None
      | TNMF \<Rightarrow>
          if domain self \<noteq> 2 then Some (AssertionError ''domain is expected 2.'') else None
      | CauchyNMF \<Rightarrow>
          if domain self \<noteq> 2
          then Some (AssertionError ''Only domain = 2 is supported.'') else None)"

definition update_once :: "nmf \<Rightarrow> error + nmf" where
  "update_once self =
     (case dispatch_error self of
        Some err \<Rightarrow> Inl err
      | None \<Rightarrow>
          (case target self of
             None \<Rightarrow> Inl AttributeError
           | Some Z \<Rightarrow>
               (case domain_assertion self of
                  Some err \<Rightarrow> Inl err
                | None \<Rightarrow>
                    (case (basis self, activation self) of
                       (Some T, Some V) \<Rightarrow>
                         (case update_rule self Z T V of
                            Inl err \<Rightarrow> Inl err
                          | Inr (T', V') \<Rightarrow> Inr (self\<lparr>basis := Some T', activation := Some V'\<rparr>))
                     | _ \<Rightarrow> Inl AttributeError))))"


subsection \<open>Loss, iteration loop and entry point\<close>

text \<open>
  \<^verbatim>\<open>self.criterion\<close>, applied to whole arrays. The closure \<^verbatim>\<open>t_divergence\<close> divides the
  Python scalars \<^verbatim>\<open>2 / nu\<close>, which raises when \<open>nu\<close> is 0.
\<close>

definition t_divergence :: "real \<Rightarrow> real \<Rightarrow> fl \<Rightarrow> fl \<Rightarrow> fl" where
  "t_divergence e n x z =
     (let inp = x + Fin e; tgt = z + Fin e
      in fl_log inp + Fin ((2 + n) / 2) * fl_log (Fin 1 + Fin (2 / n) * (tgt / inp)))"

definition cauchy_divergence :: "real \<Rightarrow> fl \<Rightarrow> fl \<Rightarrow> fl" where
  "cauchy_divergence e x z =
     (let inp = x + Fin e; tgt = z + Fin e;
          numerator = Fin 2 * fl_pow tgt 2 + fl_pow inp 2;
          denominator = Fin 3 * fl_pow tgt 2
      in fl_log (tgt / inp) + Fin (3 / 2) * fl_log (numerator / denominator))"

definition criterion :: "nmf \<Rightarrow> matrix \<Rightarrow> matrix \<Rightarrow> error + matrix" where
  "criterion self inp tgt =
     (case cls self of
        EUCNMF \<Rightarrow> Inr (\<lambda>i j. fl_pow (tgt i j - inp i j) 2)
      | KLNMF \<Rightarrow> Inr (\<lambda>i j. divergence self (inp i j) (tgt i j))
      | ISNMF \<Rightarrow> Inr (\<lambda>i j. divergence self (inp i j) (tgt i j))
      | TNMF \<Rightarrow>
          if nu self = 0 then Inl ZeroDivisionError
          else Inr (\<lambda>i j. t_divergence (eps self) (nu self) (inp i j) (tgt i j))
      | CauchyNMF \<Rightarrow> Inr (\<lambda>i j. cauchy_divergence (eps self) (inp i j) (tgt i j)))"

text \<open>
  The scalar appended to the loss trace. \<open>base_loss\<close> is the body of the loop of
  \<^verbatim>\<open>NMFbase.update\<close>, which \<^verbatim>\<open>CauchyNMF\<close> inherits: the criterion of \<^verbatim>\<open>T @ V\<close>.
  \<open>domain_loss\<close> is the body of the loop of the method \<^verbatim>\<open>update\<close> that \<^verbatim>\<open>EUCNMF\<close>,
  \<^verbatim>\<open>KLNMF\<close>, \<^verbatim>\<open>ISNMF\<close> and \<^verbatim>\<open>tNMF\<close> each override with the same text: the criterion of
  \<^verbatim>\<open>(T @ V)**(2 / domain)\<close>.
\<close>

definition base_loss :: "nmf \<Rightarrow> target_array \<Rightarrow> matrix \<Rightarrow> matrix \<Rightarrow> error + fl" where
  "base_loss self Z T V =
     (let TV = matmul (n_basis self) T V in
      case criterion self TV (entries Z) of
        Inl err \<Rightarrow> Inl err
      | Inr L \<Rightarrow> Inr (msum (n_bins Z) (n_frames Z) L))"

definition domain_loss :: "nmf \<Rightarrow> target_array \<Rightarrow> matrix \<Rightarrow> matrix \<Rightarrow> error + fl" where
  "domain_loss self Z T V =
     (if domain self = 0 then Inl ZeroDivisionError
      else
        let TV = mpow (matmul (n_basis self) T V) (2 / domain self) in
        case criterion self TV (entries Z) of
          Inl err \<Rightarrow> Inl err
        | Inr L \<Rightarrow> Inr (msum (n_bins Z) (n_frames Z) L))"

definition logged_loss :: "nmf \<Rightarrow> target_array \<Rightarrow> matrix \<Rightarrow> matrix \<Rightarrow> error + fl" where
  "logged_loss self Z T V =
     (if cls self = CauchyNMF then base_loss self Z T V else domain_loss self Z T V)"

text \<open>One pass of the loop body: \<^verbatim>\<open>update_once\<close>, then the loss is appended.\<close>

definition update_iteration :: "nmf \<Rightarrow> error + nmf" where
  "update_iteration self =
     (case update_once self of
        Inl err \<Rightarrow> Inl err
      | Inr self \<Rightarrow>
          (case (target self, basis self, activation self) of
             (Some Z, Some T, Some V) \<Rightarrow>
               (case logged_loss self Z T V of
                  Inl err \<Rightarrow> Inl err
                | Inr l \<Rightarrow> Inr (self\<lparr>loss := loss self @ [l]\<rparr>))
           | _ \<Rightarrow> Inl AttributeError))"

text \<open>\<^verbatim>\<open>for idx in range(iteration)\<close>: the loop runs \<open>n\<close> times and stops at a raise.\<close>

fun update :: "nmf \<Rightarrow> nat \<Rightarrow> error + nmf" where
  "update self 0 = Inr self"
| "update self (Suc n) =
     (case update_iteration self of
        Inl err \<Rightarrow> Inl err
      | Inr self \<Rightarrow> update self n)"

text \<open>
  \<^verbatim>\<open>NMFbase._reset\<close>, called without keyword overrides. The two results of
  \<^verbatim>\<open>np.random.rand\<close> are parameters: \<open>r1\<close> is the draw for the basis, \<open>r2\<close> the draw for
  the activation; both are finite.
\<close>

definition reset :: "nmf \<Rightarrow> (nat \<Rightarrow> nat \<Rightarrow> real) \<Rightarrow> (nat \<Rightarrow> nat \<Rightarrow> real) \<Rightarrow> error + nmf" where
  "reset self r1 r2 =
     (case target self of
        None \<Rightarrow> Inl (AssertionError ''Specify data!'')
      | Some Z \<Rightarrow>
          Inr (self\<lparr>basis := Some (\<lambda>i k. Fin (r1 i k)), activation := Some (\<lambda>k j. Fin (r2 k j))\<rparr>))"

text \<open>
  \<^verbatim>\<open>NMFbase.__call__(target, iteration)\<close>. The result is the engine after the call with
  the two arrays it returns; \<^verbatim>\<open>range\<close> of a negative count is empty.
\<close>

definition call ::
  "nmf \<Rightarrow> target_array option \<Rightarrow> int \<Rightarrow> (nat \<Rightarrow> nat \<Rightarrow> real) \<Rightarrow> (nat \<Rightarrow> nat \<Rightarrow> real)
   \<Rightarrow> error + nmf \<times> matrix \<times> matrix" where
  "call self tgt iteration r1 r2 =
     (case reset (self\<lparr>target := tgt\<rparr>) r1 r2 of
        Inl err \<Rightarrow> Inl err
      | Inr self \<Rightarrow>
          (case update self (nat iteration) of
             Inl err \<Rightarrow> Inl err
           | Inr self \<Rightarrow>
               (case (basis self, activation self) of
                  (Some T, Some V) \<Rightarrow> Inr (self, T, V)
                | _ \<Rightarrow> Inl AttributeError)))"

section \<open>The complex NMF engine\<close>

text \<open>
  A complex array entry is a pair of array values. A real array that meets a complex one
  in an operation is first cast (imaginary part 0), then the complex operation is
  applied, as numpy does.
\<close>

datatype cfl = Cx (re: fl) (im: fl)

definition of_fl :: "fl \<Rightarrow> cfl" where
  "of_fl x = Cx x (Fin 0)"

definition c_add :: "cfl \<Rightarrow> cfl \<Rightarrow> cfl" where
  "c_add a b = Cx (re a + re b) (im a + im b)"

definition c_sub :: "cfl \<Rightarrow> cfl \<Rightarrow> cfl" where
  "c_sub a b = Cx (re a - re b) (im a - im b)"

definition c_mul :: "cfl \<Rightarrow> cfl \<Rightarrow> cfl" where
  "c_mul a b = Cx (re a * re b - im a * im b) (re a * im b + im a * re b)"

definition c_conj :: "cfl \<Rightarrow> cfl" where
  "c_conj a = Cx (re a) (- im a)"

text \<open>\<^verbatim>\<open>np.abs\<close> of a complex value: an infinite part gives infinity, else NaN propagates.\<close>

fun c_abs :: "cfl \<Rightarrow> fl" where
  "c_abs (Cx (Fin a) (Fin b)) = Fin (sqrt (a * a + b * b))"
| "c_abs (Cx PInf _) = PInf"
| "c_abs (Cx NInf _) = PInf"
| "c_abs (Cx _ PInf) = PInf"
| "c_abs (Cx _ NInf) = PInf"
| "c_abs (Cx _ _) = NaN"

text \<open>
  \<^verbatim>\<open>np.exp\<close> of a complex value. The engine applies it to \<^verbatim>\<open>1j * Phi\<close> only, whose real
  part is zero or NaN; every argument that is not finite yields NaN in both parts there.
\<close>

fun c_exp :: "cfl \<Rightarrow> cfl" where
  "c_exp (Cx (Fin a) (Fin b)) = Cx (Fin (exp a * cos b)) (Fin (exp a * sin b))"
| "c_exp (Cx _ _) = Cx NaN NaN"

text \<open>\<^verbatim>\<open>np.angle(z)\<close>, that is \<^verbatim>\<open>arctan2(z.imag, z.real)\<close>.\<close>

definition arctan2 :: "real \<Rightarrow> real \<Rightarrow> real" where
  "arctan2 y x =
     (if 0 < x then arctan (y / x)
      else if x < 0 then (if 0 \<le> y then arctan (y / x) + pi else arctan (y / x) - pi)
      else if 0 < y then pi / 2
      else if y < 0 then - pi / 2
      else 0)"

fun angle :: "cfl \<Rightarrow> fl" where
  "angle (Cx (Fin a) (Fin b)) = Fin (arctan2 b a)"
| "angle (Cx NaN _) = NaN"
| "angle (Cx _ NaN) = NaN"
| "angle (Cx (Fin a) PInf) = Fin (pi / 2)"
| "angle (Cx (Fin a) NInf) = Fin (- pi / 2)"
| "angle (Cx PInf (Fin b)) = Fin 0"
| "angle (Cx NInf (Fin b)) = (if 0 \<le> b then Fin pi else Fin (- pi))"
| "angle (Cx PInf PInf) = Fin (pi / 4)"
| "angle (Cx PInf NInf) = Fin (- pi / 4)"
| "angle (Cx NInf PInf) = Fin (3 * pi / 4)"
| "angle (Cx NInf NInf) = Fin (- 3 * pi / 4)"

fun csum :: "nat \<Rightarrow> (nat \<Rightarrow> cfl) \<Rightarrow> cfl" where
  "csum 0 f = Cx (Fin 0) (Fin 0)"
| "csum (Suc n) f = c_add (csum n f) (f n)"

type_synonym tensor3 = "nat \<Rightarrow> nat \<Rightarrow> nat \<Rightarrow> fl"

text \<open>Arrays of shape (bins, bases, frames) are indexed in that order.\<close>

record complex_target =
  c_n_bins :: nat
  c_n_frames :: nat
  c_entries :: "nat \<Rightarrow> nat \<Rightarrow> cfl"

record cnmf =
  c_n_basis :: nat
  c_regularizer :: real
  c_p :: real
  c_loss :: "fl list"
  c_eps :: real
  c_target :: "complex_target option"
  c_basis :: "matrix option"
  c_activation :: "matrix option"
  c_phase :: "tensor3 option"
  c_Beta :: "tensor3 option"

text \<open>\<^verbatim>\<open>ComplexEUCNMF.__init__\<close>; it asserts nothing.\<close>

definition ComplexEUCNMF_init :: "nat \<Rightarrow> real \<Rightarrow> real \<Rightarrow> real \<Rightarrow> cnmf" where
  "ComplexEUCNMF_init nb reg p e =
     \<lparr>c_n_basis = nb, c_regularizer = reg, c_p = p, c_loss = [], c_eps = e,
      c_target = None, c_basis = None, c_activation = None, c_phase = None, c_Beta = None\<rparr>"

text \<open>
  \<^verbatim>\<open>update_beta\<close>: \<^verbatim>\<open>TV = T * V\<close> of shape (bins, bases, frames), its sum over the basis
  axis floored at \<open>eps\<close>, and the quotient.
\<close>

definition TVsum :: "nat \<Rightarrow> real \<Rightarrow> matrix \<Rightarrow> matrix \<Rightarrow> matrix" where
  "TVsum nk e T V = floor_eps e (\<lambda>i j. fsum nk (\<lambda>k. T i k * V k j))"

definition Beta_of :: "nat \<Rightarrow> real \<Rightarrow> matrix \<Rightarrow> matrix \<Rightarrow> tensor3" where
  "Beta_of nk e T V = (\<lambda>i k j. (T i k * V k j) / TVsum nk e T V i j)"

definition update_beta :: "cnmf \<Rightarrow> error + cnmf" where
  "update_beta self =
     (case (c_basis self, c_activation self) of
        (Some T, Some V) \<Rightarrow> Inr (self\<lparr>c_Beta := Some (Beta_of (c_n_basis self) (c_eps self) T V)\<rparr>)
      | _ \<Rightarrow> Inl AttributeError)"

text \<open>
  \<^verbatim>\<open>ComplexEUCNMF.update_once\<close>. \<^verbatim>\<open>Beta\<close> and \<^verbatim>\<open>V_bar\<close> are aliases of \<^verbatim>\<open>self.Beta\<close> and of
  \<^verbatim>\<open>V\<close>, so the two in-place floors change \<^verbatim>\<open>Beta\<close> and \<^verbatim>\<open>V\<close> themselves from that line
  on; \<open>X\<close> and \<open>ZX\<close> are computed before \<open>V\<close> is floored.
\<close>

definition complex_update_once :: "cnmf \<Rightarrow> error + cnmf" where
  "complex_update_once self =
     (case (c_target self, c_basis self, c_activation self, c_phase self, c_Beta self) of
        (Some Z, Some T, Some V, Some Phi, Some Beta) \<Rightarrow>
          (let e = c_eps self; regularizer = c_regularizer self; p = c_p self;
               nb = c_n_bins Z; nf = c_n_frames Z; nk = c_n_basis self;
               Ephi = (\<lambda>i k j. c_exp (c_mul (Cx (Fin 0) (Fin 1)) (of_fl (Phi i k j))));
               Beta = (\<lambda>i k j. if Beta i k j < Fin e then Fin e else Beta i k j);
               X = (\<lambda>i k j. c_mul (of_fl (T i k * V k j)) (Ephi i k j));
               ZX = (\<lambda>i j. c_sub (c_entries Z i j) (csum nk (\<lambda>k. X i k j)));
               Z_bar = (\<lambda>i k j. c_add (X i k j) (c_mul (of_fl (Beta i k j)) (ZX i j)));
               V = floor_eps e V;
               V_bar = V;
               Re = (\<lambda>i k j. re (c_mul (c_conj (Z_bar i k j)) (Ephi i k j)));
               VV = mpow V 2;
               numerator = (\<lambda>i k. fsum nf (\<lambda>j. (V k j / Beta i k j) * Re i k j));
               denominator = floor_eps e (\<lambda>i k. fsum nf (\<lambda>j. VV k j / Beta i k j));
               T = ediv numerator denominator;
               TT = mpow T 2;
               numerator = (\<lambda>k j. fsum nb (\<lambda>i. (T i k / Beta i k j) * Re i k j));
               denominator = floor_eps e
                 (\<lambda>k j. fsum nb (\<lambda>i. TT i k / Beta i k j)
                         + Fin (regularizer * p) * fl_pow (V_bar k j) (p - 2));
               V = ediv numerator denominator;
               phase = (\<lambda>i k j. angle (Z_bar i k j));
               T = (\<lambda>i k. T i k / fsum nb (\<lambda>i. T i k))
           in update_beta
                (self\<lparr>c_basis := Some T, c_activation := Some V, c_phase := Some phase\<rparr>))
      | _ \<Rightarrow> Inl AttributeError)"

text \<open>
  The loss appended by \<^verbatim>\<open>ComplexEUCNMF.update\<close>: the criterion
  \<^verbatim>\<open>np.abs(input - target)**2\<close> of
  \<^verbatim>\<open>np.sum(basis[:,:,np.newaxis] * activation[np.newaxis,:,:] * phase, axis=1)\<close>, summed.
\<close>

definition complex_logged_loss ::
  "nat \<Rightarrow> complex_target \<Rightarrow> matrix \<Rightarrow> matrix \<Rightarrow> tensor3 \<Rightarrow> fl" where
  "complex_logged_loss nk Z T V Phi =
     (let TVPhi = (\<lambda>i j. fsum nk (\<lambda>k. T i k * V k j * Phi i k j))
      in msum (c_n_bins Z) (c_n_frames Z)
           (\<lambda>i j. fl_pow (c_abs (c_sub (of_fl (TVPhi i j)) (c_entries Z i j))) 2))"

definition complex_update_iteration :: "cnmf \<Rightarrow> error + cnmf" where
  "complex_update_iteration self =
     (case complex_update_once self of
        Inl err \<Rightarrow> Inl err
      | Inr self \<Rightarrow>
          (case (c_target self, c_basis self, c_activation self, c_phase self) of
             (Some Z, Some T, Some V, Some Phi) \<Rightarrow>
               Inr (self\<lparr>c_loss := c_loss self @ [complex_logged_loss (c_n_basis self) Z T V Phi]\<rparr>)
           | _ \<Rightarrow> Inl AttributeError))"

fun complex_update :: "cnmf \<Rightarrow> nat \<Rightarrow> error + cnmf" where
  "complex_update self 0 = Inr self"
| "complex_update self (Suc n) =
     (case complex_update_iteration self of
        Inl err \<Rightarrow> Inl err
      | Inr self \<Rightarrow> complex_update self n)"

text \<open>
  \<^verbatim>\<open>ComplexEUCNMF._reset\<close> without keyword overrides: the base class draws basis,
  activation and phase (\<open>r1\<close>, \<open>r2\<close>, \<open>r3\<close>), then \<^verbatim>\<open>init_phase\<close> replaces the phase by the
  angle of the target, the same for every basis, and \<^verbatim>\<open>update_beta\<close> runs.
\<close>

definition complex_reset ::
  "cnmf \<Rightarrow> (nat \<Rightarrow> nat \<Rightarrow> real) \<Rightarrow> (nat \<Rightarrow> nat \<Rightarrow> real) \<Rightarrow> (nat \<Rightarrow> nat \<Rightarrow> nat \<Rightarrow> real) \<Rightarrow> error + cnmf" where
  "complex_reset self r1 r2 r3 =
     (case c_target self of
        None \<Rightarrow> Inl (AssertionError ''Specify data!'')
      | Some Z \<Rightarrow>
          (let self = self\<lparr>c_basis := Some (\<lambda>i k. Fin (r1 i k)),
                           c_activation := Some (\<lambda>k j. Fin (r2 k j)),
                           c_phase := Some (\<lambda>i k j. Fin (2 * pi * r3 i k j))\<rparr>;
               self = self\<lparr>c_phase := Some (\<lambda>i k j. angle (c_entries Z i j))\<rparr>
           in update_beta self))"

definition complex_call ::
  "cnmf \<Rightarrow> complex_target option \<Rightarrow> int
   \<Rightarrow> (nat \<Rightarrow> nat \<Rightarrow> real) \<Rightarrow> (nat \<Rightarrow> nat \<Rightarrow> real) \<Rightarrow> (nat \<Rightarrow> nat \<Rightarrow> nat \<Rightarrow> real)
   \<Rightarrow> error + cnmf \<times> matrix \<times> matrix \<times> tensor3" where
  "complex_call self tgt iteration r1 r2 r3 =
     (case complex_reset (self\<lparr>c_target := tgt\<rparr>) r1 r2 r3 of
        Inl err \<Rightarrow> Inl err
      | Inr self \<Rightarrow>
          (case complex_update self (nat iteration) of
             Inl err \<Rightarrow> Inl err
           | Inr self \<Rightarrow>
               (case (c_basis self, c_activation self, c_phase self) of
                  (Some T, Some V, Some Phi) \<Rightarrow> Inr (self, T, V, Phi)
                | _ \<Rightarrow> Inl AttributeError)))"

section \<open>The multichannel IS-NMF engine\<close>

text \<open>
  The target is an array of any rank; \<^verbatim>\<open>_reset\<close> unpacks its shape into four names.
  \<open>spatial\<close>, \<open>basis\<close> and \<open>activation\<close> are attributes that the constructor does not
  create: \<^verbatim>\<open>hasattr\<close> is \<open>None\<close> versus \<open>Some\<close> here.
\<close>

type_synonym tensor4 = "nat \<Rightarrow> nat \<Rightarrow> nat \<Rightarrow> nat \<Rightarrow> cfl"

record multichannel_target =
  m_shape :: "nat list"
  m_entries :: tensor4

record mnmf =
  m_n_basis :: nat
  m_loss :: "fl list"
  m_eps :: real
  m_normalize :: bool
  m_target :: "multichannel_target option"
  m_n_bins :: "nat option"
  m_n_frames :: "nat option"
  m_n_channels :: "nat option"
  m_spatial :: "tensor4 option"
  m_basis :: "matrix option"
  m_activation :: "matrix option"

definition MultichannelISNMF_init :: "nat \<Rightarrow> bool \<Rightarrow> real \<Rightarrow> mnmf" where
  "MultichannelISNMF_init nb nrm e =
     \<lparr>m_n_basis = nb, m_loss = [], m_eps = e, m_normalize = nrm, m_target = None,
      m_n_bins = None, m_n_frames = None, m_n_channels = None,
      m_spatial = None, m_basis = None, m_activation = None\<rparr>"

text \<open>\<^verbatim>\<open>np.tile(np.eye(n_channels), reps=(n_bins, n_basis, 1, 1))\<close>.\<close>

definition identity_tiles :: tensor4 where
  "identity_tiles = (\<lambda>i k a b. if a = b then Cx (Fin 1) (Fin 0) else Cx (Fin 0) (Fin 0))"

text \<open>
  \<^verbatim>\<open>MultichannelISNMF._reset\<close> without keyword overrides. The shape of the target is
  unpacked into four names: a shape of another length raises Python's \<^verbatim>\<open>ValueError\<close> of
  a failed unpacking. An attribute that exists is kept (the source assigns a copy of it
  to itself); one that does not is created: the spatial tensor from identity matrices,
  basis and activation from the draws \<open>r1\<close>, \<open>r2\<close>.
\<close>

definition multichannel_reset ::
  "mnmf \<Rightarrow> (nat \<Rightarrow> nat \<Rightarrow> real) \<Rightarrow> (nat \<Rightarrow> nat \<Rightarrow> real) \<Rightarrow> error + mnmf" where
  "multichannel_reset self r1 r2 =
     (case m_target self of
        None \<Rightarrow> Inl (AssertionError ''Specify data!'')
      | Some X \<Rightarrow>
          (case m_shape X of
             [] \<Rightarrow> Inl (ValueError ''not enough values to unpack (expected 4, got 0)'')
           | [a] \<Rightarrow> Inl (ValueError ''not enough values to unpack (expected 4, got 1)'')
           | [a, b] \<Rightarrow> Inl (ValueError ''not enough values to unpack (expected 4, got 2)'')
           | [a, b, c] \<Rightarrow> Inl (ValueError ''not enough values to unpack (expected 4, got 3)'')
           | [bins, frames, channels, channels'] \<Rightarrow>
               if channels' \<noteq> channels then Inl (AssertionError ''Invalid input shape'')
               else
                 Inr (self\<lparr>m_n_bins := Some bins, m_n_frames := Some frames,
                           m_n_channels := Some channels,
                           m_spatial :=
                             (case m_spatial self of
                                None \<Rightarrow> Some identity_tiles
                              | Some H \<Rightarrow> Some H),
                           m_basis :=
                             (case m_basis self of
                                None \<Rightarrow> Some (\<lambda>i k. Fin (r1 i k))
                              | Some T \<Rightarrow> Some T),
                           m_activation :=
                             (case m_activation self of
                                None \<Rightarrow> Some (\<lambda>k j. Fin (r2 k j))
                              | Some V \<Rightarrow> Some V)\<rparr>)
           | _ \<Rightarrow> Inl (ValueError ''too many values to unpack (expected 4)'')))"

text \<open>
  The three sub-updates call numpy's matrix inverse, which raises on a singular matrix,
  and \<^verbatim>\<open>solve_Riccati\<close> of \<^verbatim>\<open>algorithm.linalg\<close>; the criterion is
  \<^verbatim>\<open>multichannel_is_divergence\<close> of \<^verbatim>\<open>criterion.divergence\<close>. Neither module is part of
  the sources. The model takes as parameters the array each sub-update computes from
  the engine (\<open>ub\<close> for \<^verbatim>\<open>update_basis\<close>, \<open>ua\<close> for \<^verbatim>\<open>update_activation\<close>, \<open>us\<close> for
  \<^verbatim>\<open>update_spatial\<close>) and the summed criterion \<open>crit\<close> of a reconstruction; each sub-update
  assigns its one attribute, as in the source.
\<close>

record multichannel_ops =
  ub :: "mnmf \<Rightarrow> error + matrix"
  ua :: "mnmf \<Rightarrow> error + matrix"
  us :: "mnmf \<Rightarrow> error + tensor4"
  crit :: "tensor4 \<Rightarrow> multichannel_target \<Rightarrow> fl"

definition multichannel_update_once :: "multichannel_ops \<Rightarrow> mnmf \<Rightarrow> error + mnmf" where
  "multichannel_update_once ops self =
     (case ub ops self of
        Inl err \<Rightarrow> Inl err
      | Inr T \<Rightarrow>
          (let self = self\<lparr>m_basis := Some T\<rparr> in
           case ua ops self of
             Inl err \<Rightarrow> Inl err
           | Inr V \<Rightarrow>
               (let self = self\<lparr>m_activation := Some V\<rparr> in
                case us ops self of
                  Inl err \<Rightarrow> Inl err
                | Inr H \<Rightarrow> Inr (self\<lparr>m_spatial := Some H\<rparr>))))"

text \<open>
  \<^verbatim>\<open>reconstruct\<close>: \<^verbatim>\<open>X_hat = sum over bases of H * (T * V)\<close>, of shape
  (bins, frames, channels, channels).
\<close>

definition reconstruct :: "nat \<Rightarrow> tensor4 \<Rightarrow> matrix \<Rightarrow> matrix \<Rightarrow> tensor4" where
  "reconstruct nk H T V = (\<lambda>i j a b. csum nk (\<lambda>k. c_mul (H i k a b) (of_fl (T i k * V k j))))"

definition multichannel_update_iteration :: "multichannel_ops \<Rightarrow> mnmf \<Rightarrow> error + mnmf" where
  "multichannel_update_iteration ops self =
     (case multichannel_update_once ops self of
        Inl err \<Rightarrow> Inl err
      | Inr self \<Rightarrow>
          (case (m_target self, m_spatial self, m_basis self, m_activation self) of
             (Some X, Some H, Some T, Some V) \<Rightarrow>
               Inr (self\<lparr>m_loss := m_loss self @ [crit ops (reconstruct (m_n_basis self) H T V) X]\<rparr>)
           | _ \<Rightarrow> Inl AttributeError))"

fun multichannel_update :: "multichannel_ops \<Rightarrow> mnmf \<Rightarrow> nat \<Rightarrow> error + mnmf" where
  "multichannel_update ops self 0 = Inr self"
| "multichannel_update ops self (Suc n) =
     (case multichannel_update_iteration ops self of
        Inl err \<Rightarrow> Inl err
      | Inr self \<Rightarrow> multichannel_update ops self n)"

definition multichannel_call ::
  "multichannel_ops \<Rightarrow> mnmf \<Rightarrow> multichannel_target option \<Rightarrow> int
   \<Rightarrow> (nat \<Rightarrow> nat \<Rightarrow> real) \<Rightarrow> (nat \<Rightarrow> nat \<Rightarrow> real)
   \<Rightarrow> error + mnmf \<times> tensor4 \<times> matrix \<times> matrix" where
  "multichannel_call ops self tgt iteration r1 r2 =
     (case multichannel_reset (self\<lparr>m_target := tgt\<rparr>) r1 r2 of
        Inl err \<Rightarrow> Inl err
      | Inr self \<Rightarrow>
          (case multichannel_update ops self (nat iteration) of
             Inl err \<Rightarrow> Inl err
           | Inr self \<Rightarrow>
               (case (m_spatial self, m_basis self, m_activation self) of
                  (Some H, Some T, Some V) \<Rightarrow> Inr (self, H, T, V)
                | _ \<Rightarrow> Inl AttributeError)))"

section \<open>The update formulas as the specification words them\<close>

text \<open>
  The Euclidean MM update as a formula on arrays: the current factor times the ratio of
  a numerator to a floored denominator, raised to \<open>domain / (4 - domain)\<close>. In
  \<open>EUC_basis_update\<close> and \<open>EUC_activation_update\<close> the reconstruction \<open>T @ V\<close> is floored
  at \<open>eps\<close> before the powers are taken; in \<open>EUC_basis_update_unfloored\<close> only the
  denominator is floored, which is how the specification's sentence reads.
\<close>

definition EUC_basis_update ::
  "real \<Rightarrow> real \<Rightarrow> nat \<Rightarrow> nat \<Rightarrow> matrix \<Rightarrow> matrix \<Rightarrow> matrix \<Rightarrow> matrix" where
  "EUC_basis_update e d nk nf X T V =
     (let R = floor_eps e (matmul nk T V);
          numerator = matmul nf (emul X (mpow R ((2 - d) / d))) (transpose_m V);
          denominator = floor_eps e (matmul nf (mpow R ((4 - d) / d)) (transpose_m V))
      in emul T (mpow (ediv numerator denominator) (d / (4 - d))))"

definition EUC_activation_update ::
  "real \<Rightarrow> real \<Rightarrow> nat \<Rightarrow> nat \<Rightarrow> matrix \<Rightarrow> matrix \<Rightarrow> matrix \<Rightarrow> matrix" where
  "EUC_activation_update e d nk nb X T V =
     (let R = floor_eps e (matmul nk T V);
          numerator = matmul nb (transpose_m T) (emul X (mpow R ((2 - d) / d)));
          denominator = floor_eps e (matmul nb (transpose_m T) (mpow R ((4 - d) / d)))
      in emul V (mpow (ediv numerator denominator) (d / (4 - d))))"

definition EUC_basis_update_unfloored ::
  "real \<Rightarrow> real \<Rightarrow> nat \<Rightarrow> nat \<Rightarrow> matrix \<Rightarrow> matrix \<Rightarrow> matrix \<Rightarrow> matrix" where
  "EUC_basis_update_unfloored e d nk nf X T V =
     (let R = matmul nk T V;
          numerator = matmul nf (emul X (mpow R ((2 - d) / d))) (transpose_m V);
          denominator = floor_eps e (matmul nf (mpow R ((4 - d) / d)) (transpose_m V))
      in emul T (mpow (ediv numerator denominator) (d / (4 - d))))"

text \<open>
  The two halves of every rule as functions of the factors they are given: what the
  rule computes for the basis from \<open>T\<close> and \<open>V\<close>, and what it computes for the activation
  from a basis \<open>T\<close>, the old activation \<open>V\<close> and the target. \<open>basis_half\<close> and
  \<open>activation_half\<close> select the half by class and algorithm.
\<close>

definition KL_activation_update :: "nmf \<Rightarrow> target_array \<Rightarrow> matrix \<Rightarrow> matrix \<Rightarrow> matrix" where
  "KL_activation_update self Z T V =
     (let d = domain self; e = eps self;
          R = floor_eps e (matmul (n_basis self) T V);
          denominator = floor_eps e (matmul (n_bins Z) (transpose_m T) (mpow R ((2 - d) / d)));
          numerator = matmul (n_bins Z) (transpose_m T) (ediv (entries Z) R)
      in emul V (mpow (ediv numerator denominator) (d / 2)))"

definition IS_mm_activation_update :: "nmf \<Rightarrow> target_array \<Rightarrow> matrix \<Rightarrow> matrix \<Rightarrow> matrix" where
  "IS_mm_activation_update self Z T V =
     (let d = domain self; e = eps self;
          R = floor_eps e (matmul (n_basis self) T V);
          numerator = matmul (n_bins Z) (transpose_m T) (ediv (entries Z) (mpow R ((d + 2) / d)));
          denominator = floor_eps e (matmul (n_bins Z) (transpose_m T) (sdiv 1 R))
      in emul V (mpow (ediv numerator denominator) (d / (d + 2))))"

definition IS_me_activation_update :: "nmf \<Rightarrow> target_array \<Rightarrow> matrix \<Rightarrow> matrix \<Rightarrow> matrix" where
  "IS_me_activation_update self Z T V =
     (let d = domain self; e = eps self;
          R = floor_eps e (matmul (n_basis self) T V);
          numerator = matmul (n_bins Z) (transpose_m T) (ediv (entries Z) (mpow R ((d + 2) / d)));
          denominator = floor_eps e (matmul (n_bins Z) (transpose_m T) (sdiv 1 R))
      in emul V (ediv numerator denominator))"

definition t_activation_update :: "nmf \<Rightarrow> target_array \<Rightarrow> matrix \<Rightarrow> matrix \<Rightarrow> matrix" where
  "t_activation_update self Z T V =
     (let e = eps self;
          R = floor_eps e (matmul (n_basis self) T V);
          harmonic = harmonic_of (nu self) R (\<lambda>i j. fl_maximum (entries Z i j) (Fin e));
          numerator = matmul (n_bins Z) (transpose_m T) (ediv harmonic (mpow R 2));
          denominator = floor_eps e (matmul (n_bins Z) (transpose_m T) (sdiv 1 R))
      in emul V (msqrt (ediv numerator denominator)))"

definition Cauchy_ratio_activation :: "nmf \<Rightarrow> target_array \<Rightarrow> matrix \<Rightarrow> matrix \<Rightarrow> matrix" where
  "Cauchy_ratio_activation self Z T V =
     (let e = eps self;
          R = floor_eps e (matmul (n_basis self) T V);
          numerator = sum_bins_div (n_bins Z) T R;
          C = floor_eps e (eadd (smul 2 (entries Z)) (mpow R 2));
          denominator = floor_eps e (matmul (n_bins Z) (smul 3 (transpose_m T)) (ediv R C))
      in ediv numerator denominator)"

definition Cauchy_me_activation_update :: "nmf \<Rightarrow> target_array \<Rightarrow> matrix \<Rightarrow> matrix \<Rightarrow> matrix" where
  "Cauchy_me_activation_update self Z T V =
     (let e = eps self;
          R = matmul (n_basis self) T V;
          R2Z = floor_eps e (eadd (mpow R 2) (entries Z));
          A = matmul (n_bins Z) (smul (3 / 4) (transpose_m T)) (ediv R R2Z);
          B = sum_bins_div (n_bins Z) T R;
          denominator = floor_eps e (eadd A (msqrt (eadd (mpow A 2) (emul (smul 2 B) A))))
      in emul V (ediv B denominator))"

definition Cauchy_mm_fast_activation_update ::
  "nmf \<Rightarrow> target_array \<Rightarrow> matrix \<Rightarrow> matrix \<Rightarrow> matrix" where
  "Cauchy_mm_fast_activation_update self Z T V =
     (let e = eps self;
          R = matmul (n_basis self) T V;
          C = eadd (smul 2 (entries Z)) (mpow R 2);
          numerator = matmul (n_bins Z) (transpose_m T) (ediv (entries Z) (floor_eps e (emul C R)));
          denominator = floor_eps e (matmul (n_bins Z) (transpose_m T) (ediv R (floor_eps e C)))
      in emul V (msqrt (ediv numerator denominator)))"

definition KL_basis_update :: "nmf \<Rightarrow> target_array \<Rightarrow> matrix \<Rightarrow> matrix \<Rightarrow> matrix" where
  "KL_basis_update self Z T V =
     (let d = domain self; e = eps self;
          R = floor_eps e (matmul (n_basis self) T V);
          denominator = floor_eps e (matmul (n_frames Z) (mpow R ((2 - d) / d)) (transpose_m V));
          numerator = matmul (n_frames Z) (ediv (entries Z) R) (transpose_m V)
      in emul T (mpow (ediv numerator denominator) (d / 2)))"

definition IS_mm_basis_update :: "nmf \<Rightarrow> target_array \<Rightarrow> matrix \<Rightarrow> matrix \<Rightarrow> matrix" where
  "IS_mm_basis_update self Z T V =
     (let d = domain self; e = eps self;
          R = floor_eps e (matmul (n_basis self) T V);
          numerator = matmul (n_frames Z) (ediv (entries Z) (mpow R ((d + 2) / d))) (transpose_m V);
          denominator = floor_eps e (matmul (n_frames Z) (sdiv 1 R) (transpose_m V))
      in emul T (mpow (ediv numerator denominator) (d / (d + 2))))"

definition IS_me_basis_update :: "nmf \<Rightarrow> target_array \<Rightarrow> matrix \<Rightarrow> matrix \<Rightarrow> matrix" where
  "IS_me_basis_update self Z T V =
     (let d = domain self; e = eps self;
          R = floor_eps e (matmul (n_basis self) T V);
          numerator = matmul (n_frames Z) (ediv (entries Z) (mpow R ((d + 2) / d))) (transpose_m V);
          denominator = floor_eps e (matmul (n_frames Z) (sdiv 1 R) (transpose_m V))
      in emul T (ediv numerator denominator))"

definition t_basis_update :: "nmf \<Rightarrow> target_array \<Rightarrow> matrix \<Rightarrow> matrix \<Rightarrow> matrix" where
  "t_basis_update self Z T V =
     (let e = eps self;
          R = floor_eps e (matmul (n_basis self) T V);
          harmonic = harmonic_of (nu self) R (\<lambda>i j. fl_maximum (entries Z i j) (Fin e));
          numerator = matmul (n_frames Z) (ediv harmonic (mpow R 2)) (transpose_m V);
          denominator = floor_eps e (matmul (n_frames Z) (sdiv 1 R) (transpose_m V))
      in emul T (msqrt (ediv numerator denominator)))"

definition Cauchy_ratio_basis :: "nmf \<Rightarrow> target_array \<Rightarrow> matrix \<Rightarrow> matrix \<Rightarrow> matrix" where
  "Cauchy_ratio_basis self Z T V =
     (let e = eps self;
          R = floor_eps e (matmul (n_basis self) T V);
          numerator = sum_frames_div (n_frames Z) V R;
          C = floor_eps e (eadd (smul 2 (entries Z)) (mpow R 2));
          denominator = floor_eps e (matmul (n_frames Z) (smul 3 (ediv R C)) (transpose_m V))
      in ediv numerator denominator)"

definition Cauchy_me_basis_update :: "nmf \<Rightarrow> target_array \<Rightarrow> matrix \<Rightarrow> matrix \<Rightarrow> matrix" where
  "Cauchy_me_basis_update self Z T V =
     (let e = eps self;
          R = matmul (n_basis self) T V;
          R2Z = floor_eps e (eadd (mpow R 2) (entries Z));
          A = matmul (n_frames Z) (smul (3 / 4) (ediv R R2Z)) (transpose_m V);
          B = sum_frames_div (n_frames Z) V R;
          denominator = floor_eps e (eadd A (msqrt (eadd (mpow A 2) (emul (smul 2 B) A))))
      in emul T (ediv B denominator))"

definition Cauchy_mm_fast_basis_update ::
  "nmf \<Rightarrow> target_array \<Rightarrow> matrix \<Rightarrow> matrix \<Rightarrow> matrix" where
  "Cauchy_mm_fast_basis_update self Z T V =
     (let e = eps self;
          R = matmul (n_basis self) T V;
          C = eadd (smul 2 (entries Z)) (mpow R 2);
          numerator = matmul (n_frames Z) (ediv (entries Z) (floor_eps e (emul C R))) (transpose_m V);
          denominator = floor_eps e (matmul (n_frames Z) (ediv R (floor_eps e C)) (transpose_m V))
      in emul T (msqrt (ediv numerator denominator)))"

definition basis_half :: "nmf \<Rightarrow> target_array \<Rightarrow> matrix \<Rightarrow> matrix \<Rightarrow> matrix" where
  "basis_half self Z T V =
     (case cls self of
        EUCNMF \<Rightarrow>
          EUC_basis_update (eps self) (domain self) (n_basis self) (n_frames Z) (entries Z) T V
      | KLNMF \<Rightarrow> KL_basis_update self Z T V
      | ISNMF \<Rightarrow>
          if algorithm self = ''mm'' then IS_mm_basis_update self Z T V
          else IS_me_basis_update self Z T V
      | TNMF \<Rightarrow> t_basis_update self Z T V
      | CauchyNMF \<Rightarrow>
          if algorithm self = ''naive-multipricative''
          then emul T (Cauchy_ratio_basis self Z T V)
          else if algorithm self = ''mm'' then emul T (msqrt (Cauchy_ratio_basis self Z T V))
          else if algorithm self = ''me'' then Cauchy_me_basis_update self Z T V
          else Cauchy_mm_fast_basis_update self Z T V)"

definition activation_half :: "nmf \<Rightarrow> target_array \<Rightarrow> matrix \<Rightarrow> matrix \<Rightarrow> matrix" where
  "activation_half self Z T V =
     (case cls self of
        EUCNMF \<Rightarrow>
          EUC_activation_update (eps self) (domain self) (n_basis self) (n_bins Z) (entries Z) T V
      | KLNMF \<Rightarrow> KL_activation_update self Z T V
      | ISNMF \<Rightarrow>
          if algorithm self = ''mm'' then IS_mm_activation_update self Z T V
          else IS_me_activation_update self Z T V
      | TNMF \<Rightarrow> t_activation_update self Z T V
      | CauchyNMF \<Rightarrow>
          if algorithm self = ''naive-multipricative''
          then emul V (Cauchy_ratio_activation self Z T V)
          else if algorithm self = ''mm'' then emul V (msqrt (Cauchy_ratio_activation self Z T V))
          else if algorithm self = ''me'' then Cauchy_me_activation_update self Z T V
          else Cauchy_mm_fast_activation_update self Z T V)"

text \<open>
  The loss of the complex engine as the specification words it: the sum over all cells
  of the squared magnitude of target minus the complex reconstruction, the sum over the
  components of basis times activation times \<open>exp(i Phi)\<close>.
\<close>

definition complex_reconstruction :: "nat \<Rightarrow> matrix \<Rightarrow> matrix \<Rightarrow> tensor3 \<Rightarrow> nat \<Rightarrow> nat \<Rightarrow> cfl" where
  "complex_reconstruction nk T V Phi =
     (\<lambda>i j. csum nk (\<lambda>k. c_mul (of_fl (T i k * V k j))
                              (c_exp (c_mul (Cx (Fin 0) (Fin 1)) (of_fl (Phi i k j))))))"

definition complex_reconstruction_loss ::
  "nat \<Rightarrow> complex_target \<Rightarrow> matrix \<Rightarrow> matrix \<Rightarrow> tensor3 \<Rightarrow> fl" where
  "complex_reconstruction_loss nk Z T V Phi =
     msum (c_n_bins Z) (c_n_frames Z)
       (\<lambda>i j. fl_pow (c_abs (c_sub (c_entries Z i j) (complex_reconstruction nk T V Phi i j))) 2)"

section \<open>Rounding to float64\<close>

text \<open>
  The array values above compute exactly. Where a statement depends on the rounding of
  the doubles, the computation is written on real numbers with each result rounded to
  the nearest number with a 53-bit significand, ties to the even significand, as IEEE
  754 binary64 does in its normal range. The exponent is not bounded here, so overflow
  to infinity and the subnormal numbers are not represented, and the functions below
  are used on non-zero divisors only.
\<close>

definition round_half_even :: "real \<Rightarrow> int" where
  "round_half_even x =
     (let f = \<lfloor>x\<rfloor>; r = x - of_int f
      in if r < 1 / 2 then f else if 1 / 2 < r then f + 1 else if even f then f else f + 1)"

definition float64 :: "real \<Rightarrow> real" where
  "float64 x =
     (if x = 0 then 0
      else let e = \<lfloor>log 2 \<bar>x\<bar>\<rfloor>
           in of_int (round_half_even (x / 2 powi (e - 52))) * 2 powi (e - 52))"

text \<open>
  \<^verbatim>\<open>sum(axis=1)\<close> over a short axis: numpy adds the slices in index order, starting from
  the first one, and rounds each partial sum.
\<close>

fun sum_float64 :: "nat \<Rightarrow> (nat \<Rightarrow> real) \<Rightarrow> real" where
  "sum_float64 0 f = 0"
| "sum_float64 (Suc 0) f = f 0"
| "sum_float64 (Suc (Suc n)) f = float64 (sum_float64 (Suc n) f + f (Suc n))"

text \<open>
  \<^verbatim>\<open>update_beta\<close> on finite doubles: the rounded products, their rounded sum over the
  basis axis floored at \<open>eps\<close>, and the rounded quotients.
\<close>

definition Beta_float64 ::
  "nat \<Rightarrow> real \<Rightarrow> (nat \<Rightarrow> nat \<Rightarrow> real) \<Rightarrow> (nat \<Rightarrow> nat \<Rightarrow> real) \<Rightarrow> nat \<Rightarrow> nat \<Rightarrow> nat \<Rightarrow> real" where
  "Beta_float64 nk e T V =
     (\<lambda>i k j. let TV = (\<lambda>k. float64 (T i k * V k j));
                   s = sum_float64 nk TV;
                   TVsum = (if s < e then e else s)
               in float64 (TV k / TVsum))"

section \<open>Predicates on arrays\<close>

text \<open>
  A value is non-negative when it is a finite number that is at least 0 (NaN and the
  infinities are not); an array of shape (n, m) is non-negative when every entry is.
\<close>

fun nonneg :: "fl \<Rightarrow> bool" where
  "nonneg (Fin r) = (0 \<le> r)"
| "nonneg _ = False"

fun positive :: "fl \<Rightarrow> bool" where
  "positive (Fin r) = (0 < r)"
| "positive _ = False"


definition mat_nonneg :: "nat \<Rightarrow> nat \<Rightarrow> matrix \<Rightarrow> bool" where
  "mat_nonneg n m A = (\<forall>i<n. \<forall>j<m. nonneg (A i j))"

definition mat_pos :: "nat \<Rightarrow> nat \<Rightarrow> matrix \<Rightarrow> bool" where
  "mat_pos n m A = (\<forall>i<n. \<forall>j<m. positive (A i j))"


text \<open>
  The configurations under which a real engine runs without raising: the algorithm is
  one its \<^verbatim>\<open>update_once\<close> dispatches on, the domain passes the assertions of the
  constructor and of the rule, \<open>eps\<close> is a positive floor and \<open>nu\<close> is positive.
\<close>

definition supported :: "nmf \<Rightarrow> bool" where
  "supported self =
     (0 < eps self \<and>
      (case cls self of
         EUCNMF \<Rightarrow> algorithm self = ''mm'' \<and> 1 \<le> domain self \<and> domain self \<le> 2
       | KLNMF \<Rightarrow> algorithm self = ''mm'' \<and> 1 \<le> domain self \<and> domain self \<le> 2
       | ISNMF \<Rightarrow>
           1 \<le> domain self \<and> domain self \<le> 2
           \<and> (algorithm self = ''mm'' \<or> algorithm self = ''me'' \<and> domain self = 2)
       | TNMF \<Rightarrow> algorithm self = ''mm'' \<and> domain self = 2 \<and> 0 < nu self
       | CauchyNMF \<Rightarrow>
           domain self = 2
           \<and> algorithm self \<in> {''naive-multipricative'', ''mm'', ''me'', ''mm_fast''}))"

section \<open>Concrete inputs\<close>

text \<open>
  Small inputs on which the definitions are evaluated: a target of shape (1, 1) holding
  the value 1, a random draw whose every entry is \<open>1/2\<close>, the default \<open>eps\<close> of the
  module, and an elementwise function standing for the one \<^verbatim>\<open>ISNMF\<close> imports.
\<close>

definition unit_target :: target_array where
  "unit_target = \<lparr>n_bins = 1, n_frames = 1, entries = (\<lambda>i j. Fin 1)\<rparr>"

definition half_draw :: "nat \<Rightarrow> nat \<Rightarrow> real" where
  "half_draw = (\<lambda>i j. 1 / 2)"

definition EPS :: real where
  "EPS = 1 / 10 ^ 12"

definition is_divergence_example :: "fl \<Rightarrow> fl \<Rightarrow> fl" where
  "is_divergence_example x z = z / x - fl_log (z / x) - Fin 1"

definition small_basis :: matrix where
  "small_basis = (\<lambda>i k. Fin (1 / (4 * 10 ^ 12)))"

definition three_activation :: matrix where
  "three_activation = (\<lambda>k j. Fin 3)"

definition euc_engine :: nmf where
  "euc_engine = (NMFbase_init EUCNMF 1 EPS)\<lparr>domain := 2, algorithm := ''mm''\<rparr>"

definition is_me_engine :: nmf where
  "is_me_engine =
     (NMFbase_init ISNMF 2 EPS)\<lparr>domain := 3 / 2, algorithm := ''me'', divergence := is_divergence_example\<rparr>"

definition t_engine :: nmf where
  "t_engine = (NMFbase_init TNMF 2 EPS)\<lparr>nu := 1000, domain := 3 / 2, algorithm := ''mm''\<rparr>"

definition cauchy_engine :: nmf where
  "cauchy_engine =
     (NMFbase_init CauchyNMF 1 EPS)\<lparr>domain := 2, algorithm := ''naive-multipricative''\<rparr>"

definition complex_unit_target :: complex_target where
  "complex_unit_target = \<lparr>c_n_bins = 1, c_n_frames = 1, c_entries = (\<lambda>i j. Cx (Fin 1) (Fin 0))\<rparr>"

definition half_draw3 :: "nat \<Rightarrow> nat \<Rightarrow> nat \<Rightarrow> real" where
  "half_draw3 = (\<lambda>i k j. 1 / 2)"

definition complex_engine :: cnmf where
  "complex_engine = ComplexEUCNMF_init 1 (1 / 10) 1 EPS"

definition half_matrix :: matrix where
  "half_matrix = (\<lambda>i j. Fin (1 / 2))"

definition complex_state :: cnmf where
  "complex_state = complex_engine\<lparr>c_basis := Some half_matrix, c_activation := Some half_matrix\<rparr>"



text \<open>
  A target of shape (1, 1, 2, 2), and sub-updates that double the basis, halve the
  activation and double the spatial tensor.
\<close>

definition multichannel_stereo_target :: multichannel_target where
  "multichannel_stereo_target =
     \<lparr>m_shape = [1, 1, 2, 2], m_entries = (\<lambda>i j a b. Cx (Fin 1) (Fin 0))\<rparr>"

definition doubling_ops :: multichannel_ops where
  "doubling_ops =
     \<lparr>ub = (\<lambda>self. case m_basis self of
                     None \<Rightarrow> Inl AttributeError
                   | Some T \<Rightarrow> Inr (\<lambda>i k. Fin 2 * T i k)),
      ua = (\<lambda>self. case m_activation self of
                     None \<Rightarrow> Inl AttributeError
                   | Some V \<Rightarrow> Inr (\<lambda>k j. V k j / Fin 2)),
      us = (\<lambda>self. case m_spatial self of
                     None \<Rightarrow> Inl AttributeError
                   | Some H \<Rightarrow> Inr (\<lambda>i k a b. c_mul (Cx (Fin 2) (Fin 0)) (H i k a b))),
      crit = (\<lambda>X_hat X. Fin 0)\<rparr>"

text \<open>
  For \<^verbatim>\<open>update_beta\<close>: one bin and one frame with three bases, the basis row (1, 4, 1)
  and an activation of ones; and an engine built with \<open>eps = 0\<close> whose single basis and
  activation entries are 0.
\<close>

definition one_four_one :: "nat \<Rightarrow> nat \<Rightarrow> real" where
  "one_four_one = (\<lambda>i k. if k = Suc 0 then 4 else 1)"

definition ones :: "nat \<Rightarrow> nat \<Rightarrow> real" where
  "ones = (\<lambda>k j. 1)"




definition zero_matrix :: matrix where
  "zero_matrix = (\<lambda>i j. Fin 0)"

definition cauchy_me_engine :: nmf where
  "cauchy_me_engine = (NMFbase_init CauchyNMF 1 EPS)\<lparr>domain := 2, algorithm := ''me''\<rparr>"





section \<open>General lemmas\<close>

subsection \<open>Configuration and loss trace through a call\<close>

lemma fl_pow_one: "fl_pow x 1 = x"
  by (cases x) auto

lemma update_once_config:
  "update_once self = Inr self' \<Longrightarrow>
     cls self' = cls self \<and> domain self' = domain self \<and> n_basis self' = n_basis self
     \<and> eps self' = eps self \<and> algorithm self' = algorithm self \<and> nu self' = nu self
     \<and> target self' = target self \<and> loss self' = loss self"
  by (auto simp: update_once_def split: option.splits sum.splits prod.splits)

lemma update_iteration_config:
  "update_iteration self = Inr self' \<Longrightarrow>
     cls self' = cls self \<and> domain self' = domain self \<and> n_basis self' = n_basis self
     \<and> eps self' = eps self \<and> algorithm self' = algorithm self \<and> nu self' = nu self
     \<and> target self' = target self \<and> length (loss self') = Suc (length (loss self))"
  by (auto simp: update_iteration_def split: option.splits sum.splits prod.splits
      dest!: update_once_config)

lemma update_config:
  "update self n = Inr self' \<Longrightarrow>
     cls self' = cls self \<and> domain self' = domain self \<and> n_basis self' = n_basis self
     \<and> eps self' = eps self \<and> algorithm self' = algorithm self \<and> nu self' = nu self
     \<and> target self' = target self \<and> length (loss self') = length (loss self) + n"
proof (induction n arbitrary: self)
  case 0
  then show ?case by simp
next
  case (Suc n)
  from Suc.prems obtain s1
    where s1: "update_iteration self = Inr s1" and s2: "update s1 n = Inr self'"
    by (auto split: sum.splits)
  from update_iteration_config[OF s1] Suc.IH[OF s2] show ?case by simp
qed

lemma call_config:
  "call self tgt it r1 r2 = Inr (self', T, V) \<Longrightarrow>
     cls self' = cls self \<and> domain self' = domain self \<and> n_basis self' = n_basis self
     \<and> eps self' = eps self \<and> algorithm self' = algorithm self \<and> nu self' = nu self
     \<and> target self' = tgt \<and> length (loss self') = length (loss self) + nat it
     \<and> basis self' = Some T \<and> activation self' = Some V"
  by (auto simp: call_def reset_def split: option.splits sum.splits dest!: update_config)

lemma EUCNMF_update_once_mm_eq:
  assumes "domain self \<noteq> 0" and "domain self \<noteq> 4"
  shows "EUCNMF_update_once_mm self Z T V =
           Inr (EUC_basis_update (eps self) (domain self) (n_basis self) (n_frames Z) (entries Z) T V,
                EUC_activation_update (eps self) (domain self) (n_basis self) (n_bins Z) (entries Z)
                  (EUC_basis_update (eps self) (domain self) (n_basis self) (n_frames Z) (entries Z) T V) V)"
  using assms
  by (simp add: EUCNMF_update_once_mm_def EUC_basis_update_def EUC_activation_update_def Let_def)

lemma euc_update_rule:
  "update_rule euc_engine unit_target small_basis three_activation =
     Inr (EUC_basis_update EPS 2 1 1 (entries unit_target) small_basis three_activation,
          EUC_activation_update EPS 2 1 1 (entries unit_target)
            (EUC_basis_update EPS 2 1 1 (entries unit_target) small_basis three_activation)
            three_activation)"
  using EUCNMF_update_once_mm_eq [of euc_engine unit_target small_basis three_activation]
  by (simp add: update_rule_def euc_engine_def NMFbase_init_def unit_target_def)


lemmas update_rule_defs =
  update_rule_def EUCNMF_update_once_mm_def KLNMF_update_once_mm_def
  ISNMF_update_once_mm_def ISNMF_update_once_me_def tNMF_update_once_mm_def
  CauchyNMF_update_once_naive_def CauchyNMF_update_once_mm_def CauchyNMF_update_once_me_def
  CauchyNMF_update_once_mm_fast_def


lemma update_rule_dispatch_error:
  "dispatch_error self = Some err \<Longrightarrow> update_rule self Z T V = Inl err"
  by (auto simp: dispatch_error_def update_rule_def Let_def
      split: engine_class.splits if_splits)

lemma update_rule_domain_assertion:
  "dispatch_error self = None \<Longrightarrow> domain_assertion self = Some err
     \<Longrightarrow> update_rule self Z T V = Inl err"
  by (auto simp: dispatch_error_def domain_assertion_def update_rule_defs Let_def
      split: engine_class.splits if_splits)

text \<open>
  On an engine that has its target and both factors, \<^verbatim>\<open>update_once\<close> is the rule
  followed by the assignment: the early failures are those of the rule.
\<close>

lemma update_once_eq:
  assumes "target self = Some Z" and "basis self = Some T" and "activation self = Some V"
  shows "update_once self =
           (case update_rule self Z T V of
              Inl err \<Rightarrow> Inl err
            | Inr (T', V') \<Rightarrow> Inr (self\<lparr>basis := Some T', activation := Some V'\<rparr>))"
proof (cases "dispatch_error self")
  case (Some err)
  then show ?thesis
    using update_rule_dispatch_error[OF Some, of Z T V] by (simp add: update_once_def)
next
  case None
  show ?thesis
  proof (cases "domain_assertion self")
    case (Some err)
    then show ?thesis
      using update_rule_domain_assertion[OF None Some, of Z T V] None assms
      by (simp add: update_once_def)
  next
    case N: None
    then show ?thesis using None assms by (simp add: update_once_def)
  qed
qed

subsection \<open>Loss trace and arrays through a multichannel call\<close>

lemma multichannel_update_once_arrays:
  "multichannel_update_once ops self = Inr self' \<Longrightarrow>
     m_loss self' = m_loss self \<and> m_target self' = m_target self"
  by (auto simp: multichannel_update_once_def Let_def split: sum.splits)

lemma multichannel_update_iteration_loss:
  "multichannel_update_iteration ops self = Inr self' \<Longrightarrow>
     length (m_loss self') = Suc (length (m_loss self)) \<and> m_target self' = m_target self"
  by (auto simp: multichannel_update_iteration_def split: sum.splits option.splits
      dest!: multichannel_update_once_arrays)

lemma multichannel_update_loss:
  "multichannel_update ops self n = Inr self' \<Longrightarrow>
     length (m_loss self') = length (m_loss self) + n \<and> m_target self' = m_target self"
proof (induction n arbitrary: self)
  case 0
  then show ?case by simp
next
  case (Suc n)
  from Suc.prems obtain s1
    where s1: "multichannel_update_iteration ops self = Inr s1"
      and s2: "multichannel_update ops s1 n = Inr self'"
    by (auto split: sum.splits)
  from multichannel_update_iteration_loss[OF s1] Suc.IH[OF s2] show ?case by simp
qed

lemma multichannel_call_result:
  "multichannel_call ops self tgt it r1 r2 = Inr (self', H, T, V) \<Longrightarrow>
     length (m_loss self') = length (m_loss self) + nat it
     \<and> m_spatial self' = Some H \<and> m_basis self' = Some T \<and> m_activation self' = Some V"
  by (auto simp: multichannel_call_def multichannel_reset_def
      split: sum.splits option.splits list.splits if_splits dest!: multichannel_update_loss)

subsection \<open>Finite values\<close>

lemma nonneg_iff: "nonneg x \<longleftrightarrow> (\<exists>r\<ge>0. x = Fin r)"
  by (cases x) auto

lemma positive_iff: "positive x \<longleftrightarrow> (\<exists>r>0. x = Fin r)"
  by (cases x) auto


lemma nonneg_mult: "nonneg a \<Longrightarrow> nonneg b \<Longrightarrow> nonneg (a * b)"
  by (auto simp: nonneg_iff)

lemma floor_m1: "\<lfloor>- 1 :: real\<rfloor> = - 1"
  by (simp add: floor_eq_iff)

lemma powi_m1: "(x::real) powi (- 1) = inverse x"
  by (simp add: power_int_minus)

lemmas array_defs = matmul_def transpose_m_def floor_eps_def mpow_def msqrt_def emul_def ediv_def
  eadd_def smul_def sdiv_def msum_def sum_frames_div_def sum_bins_div_def

subsection \<open>Non-negative and positive values under the array operations\<close>

lemma positive_imp_nonneg: "positive a \<Longrightarrow> nonneg a"
  by (cases a) auto

lemma nonneg_add: "nonneg a \<Longrightarrow> nonneg b \<Longrightarrow> nonneg (a + b)"
  by (auto simp: nonneg_iff)

lemma positive_add: "positive a \<Longrightarrow> nonneg b \<Longrightarrow> positive (a + b)"
  by (auto simp: nonneg_iff positive_iff)

lemma positive_mult: "positive a \<Longrightarrow> positive b \<Longrightarrow> positive (a * b)"
  by (auto simp: positive_iff)

lemma nonneg_divide: "nonneg a \<Longrightarrow> positive b \<Longrightarrow> nonneg (a / b)"
  by (auto simp: nonneg_iff positive_iff)

lemma positive_divide: "positive a \<Longrightarrow> positive b \<Longrightarrow> positive (a / b)"
  by (auto simp: positive_iff)

lemma positive_fl_pow: "positive a \<Longrightarrow> positive (fl_pow a y)"
  by (auto simp: positive_iff)

lemma nonneg_fl_pow: "nonneg a \<Longrightarrow> 0 \<le> y \<Longrightarrow> nonneg (fl_pow a y)"
  by (auto simp: nonneg_iff)

lemma nonneg_fl_sqrt: "nonneg a \<Longrightarrow> nonneg (fl_sqrt a)"
  by (auto simp: nonneg_iff)

lemma positive_floor: "0 < e \<Longrightarrow> nonneg a \<Longrightarrow> positive (if a < Fin e then Fin e else a)"
  by (auto simp: nonneg_iff)

lemma positive_maximum: "0 < e \<Longrightarrow> nonneg z \<Longrightarrow> positive (fl_maximum z (Fin e))"
  by (auto simp: nonneg_iff)

lemma nonneg_fsum: "(\<And>k. k < n \<Longrightarrow> nonneg (f k)) \<Longrightarrow> nonneg (fsum n f)"
  by (induction n) (auto intro: nonneg_add)

named_theorems nn_intros

lemma matmul_nonneg [nn_intros]:
  "mat_nonneg n k A \<Longrightarrow> mat_nonneg k m B \<Longrightarrow> mat_nonneg n m (matmul k A B)"
  by (auto simp: mat_nonneg_def matmul_def intro!: nonneg_fsum nonneg_mult)

lemma transpose_nonneg [nn_intros]: "mat_nonneg m n A \<Longrightarrow> mat_nonneg n m (transpose_m A)"
  by (auto simp: mat_nonneg_def transpose_m_def)

lemma floor_eps_pos [nn_intros]:
  assumes "0 < e" and "mat_nonneg n m A"
  shows "mat_pos n m (floor_eps e A)"
  unfolding mat_pos_def floor_eps_def
proof (intro allI impI)
  fix i j
  assume "i < n" "j < m"
  with assms(2) have "nonneg (A i j)" by (simp add: mat_nonneg_def)
  from positive_floor[OF assms(1) this]
  show "positive (if A i j < Fin e then Fin e else A i j)" .
qed

lemma floor_eps_nonneg [nn_intros]:
  "0 < e \<Longrightarrow> mat_nonneg n m A \<Longrightarrow> mat_nonneg n m (floor_eps e A)"
  using floor_eps_pos [of e n m A] by (auto simp: mat_nonneg_def mat_pos_def positive_imp_nonneg)

lemma mpow_pos [nn_intros]: "mat_pos n m A \<Longrightarrow> mat_pos n m (mpow A y)"
  by (auto simp: mat_pos_def mpow_def intro!: positive_fl_pow)

lemma mpow_nonneg [nn_intros]: "0 \<le> y \<Longrightarrow> mat_nonneg n m A \<Longrightarrow> mat_nonneg n m (mpow A y)"
  by (auto simp: mat_nonneg_def mpow_def intro!: nonneg_fl_pow)

lemma msqrt_nonneg [nn_intros]: "mat_nonneg n m A \<Longrightarrow> mat_nonneg n m (msqrt A)"
  by (auto simp: mat_nonneg_def msqrt_def intro!: nonneg_fl_sqrt)

lemma emul_nonneg [nn_intros]:
  "mat_nonneg n m A \<Longrightarrow> mat_nonneg n m B \<Longrightarrow> mat_nonneg n m (emul A B)"
  by (auto simp: mat_nonneg_def emul_def intro!: nonneg_mult)

lemma ediv_nonneg [nn_intros]:
  "mat_nonneg n m A \<Longrightarrow> mat_pos n m B \<Longrightarrow> mat_nonneg n m (ediv A B)"
  by (auto simp: mat_nonneg_def mat_pos_def ediv_def intro!: nonneg_divide)

lemma ediv_pos [nn_intros]: "mat_pos n m A \<Longrightarrow> mat_pos n m B \<Longrightarrow> mat_pos n m (ediv A B)"
  by (auto simp: mat_pos_def ediv_def intro!: positive_divide)

lemma eadd_nonneg [nn_intros]:
  "mat_nonneg n m A \<Longrightarrow> mat_nonneg n m B \<Longrightarrow> mat_nonneg n m (eadd A B)"
  by (auto simp: mat_nonneg_def eadd_def intro!: nonneg_add)

lemma smul_nonneg [nn_intros]: "0 \<le> c \<Longrightarrow> mat_nonneg n m A \<Longrightarrow> mat_nonneg n m (smul c A)"
  by (auto simp: mat_nonneg_def smul_def intro!: nonneg_mult)

lemma sdiv_nonneg [nn_intros]: "0 \<le> c \<Longrightarrow> mat_pos n m A \<Longrightarrow> mat_nonneg n m (sdiv c A)"
  by (auto simp: mat_nonneg_def mat_pos_def sdiv_def positive_iff) fastforce

lemma maximum_pos [nn_intros]:
  "0 < e \<Longrightarrow> mat_nonneg n m A \<Longrightarrow> mat_pos n m (\<lambda>i j. fl_maximum (A i j) (Fin e))"
  by (auto simp: mat_nonneg_def mat_pos_def intro!: positive_maximum)

lemma harmonic_nonneg [nn_intros]:
  assumes "0 \<le> c" and "mat_pos n m R" and "mat_pos n m Zm"
  shows "mat_nonneg n m (harmonic_of c R Zm)"
proof -
  have "nonneg (harmonic_of c R Zm i j)" if "i < n" "j < m" for i j
  proof -
    from assms(2,3) that obtain r z where "R i j = Fin r" "0 < r" "Zm i j = Fin z" "0 < z"
      by (auto simp: mat_pos_def positive_iff) metis
    moreover have "0 < 2 / ((2 + c) * r) + c / ((2 + c) * z)"
      using assms(1) \<open>0 < r\<close> \<open>0 < z\<close> by (intro add_pos_nonneg) auto
    ultimately show ?thesis
      using assms(1) by (auto simp: harmonic_of_def sdiv_def eadd_def smul_def)
  qed
  then show ?thesis by (simp add: mat_nonneg_def)
qed

lemma sum_frames_div_nonneg [nn_intros]:
  "mat_nonneg nk nf V \<Longrightarrow> mat_pos nb nf R \<Longrightarrow> mat_nonneg nb nk (sum_frames_div nf V R)"
  by (auto simp: mat_nonneg_def mat_pos_def sum_frames_div_def intro!: nonneg_fsum nonneg_divide)

lemma sum_bins_div_nonneg [nn_intros]:
  "mat_nonneg nb nk T \<Longrightarrow> mat_pos nb nf R \<Longrightarrow> mat_nonneg nk nf (sum_bins_div nb T R)"
  by (auto simp: mat_nonneg_def mat_pos_def sum_bins_div_def intro!: nonneg_fsum nonneg_divide)

lemma basis_half_nonneg:
  assumes "0 < eps self" and "1 \<le> domain self" and "domain self \<le> 2"
      and "cls self = TNMF \<Longrightarrow> 0 \<le> nu self"
      and "\<not> (cls self = CauchyNMF \<and> algorithm self = ''me'')"
      and "mat_nonneg (n_bins Z) (n_basis self) T"
      and "mat_nonneg (n_basis self) (n_frames Z) V"
      and "mat_nonneg (n_bins Z) (n_frames Z) (entries Z)"
  shows "mat_nonneg (n_bins Z) (n_basis self) (basis_half self Z T V)"
  using assms
  unfolding basis_half_def EUC_basis_update_def KL_basis_update_def IS_mm_basis_update_def
    IS_me_basis_update_def t_basis_update_def Cauchy_ratio_basis_def
    Cauchy_mm_fast_basis_update_def Let_def
  by (auto split: engine_class.splits intro!: nn_intros)

lemma activation_half_nonneg:
  assumes "0 < eps self" and "1 \<le> domain self" and "domain self \<le> 2"
      and "cls self = TNMF \<Longrightarrow> 0 \<le> nu self"
      and "\<not> (cls self = CauchyNMF \<and> algorithm self = ''me'')"
      and "mat_nonneg (n_bins Z) (n_basis self) T"
      and "mat_nonneg (n_basis self) (n_frames Z) V"
      and "mat_nonneg (n_bins Z) (n_frames Z) (entries Z)"
  shows "mat_nonneg (n_basis self) (n_frames Z) (activation_half self Z T V)"
  using assms
  unfolding activation_half_def EUC_activation_update_def KL_activation_update_def
    IS_mm_activation_update_def IS_me_activation_update_def t_activation_update_def
    Cauchy_ratio_activation_def Cauchy_mm_fast_activation_update_def Let_def
  by (auto split: engine_class.splits intro!: nn_intros)

subsection \<open>The two halves of an update rule\<close>

lemma update_rule_halves:
  assumes "update_rule self Z T V = Inr (T', V')"
  shows "T' = basis_half self Z T V \<and> V' = activation_half self Z T' V"
  using assms
  by (auto simp: update_rule_def basis_half_def activation_half_def Let_def
      EUCNMF_update_once_mm_def EUC_basis_update_def EUC_activation_update_def
      KLNMF_update_once_mm_def KL_basis_update_def KL_activation_update_def
      ISNMF_update_once_mm_def IS_mm_basis_update_def IS_mm_activation_update_def
      ISNMF_update_once_me_def IS_me_basis_update_def IS_me_activation_update_def
      tNMF_update_once_mm_def t_basis_update_def t_activation_update_def
      CauchyNMF_update_once_naive_def CauchyNMF_update_once_mm_def
      Cauchy_ratio_basis_def Cauchy_ratio_activation_def
      CauchyNMF_update_once_me_def Cauchy_me_basis_update_def Cauchy_me_activation_update_def
      CauchyNMF_update_once_mm_fast_def Cauchy_mm_fast_basis_update_def
      Cauchy_mm_fast_activation_update_def
      split: engine_class.splits if_splits)

lemma update_rule_nonneg:
  assumes "0 < eps self" and "1 \<le> domain self" and "domain self \<le> 2"
      and "cls self = TNMF \<Longrightarrow> 0 \<le> nu self"
      and "\<not> (cls self = CauchyNMF \<and> algorithm self = ''me'')"
      and "mat_nonneg (n_bins Z) (n_basis self) T"
      and "mat_nonneg (n_basis self) (n_frames Z) V"
      and "mat_nonneg (n_bins Z) (n_frames Z) (entries Z)"
      and "update_rule self Z T V = Inr (T', V')"
  shows "mat_nonneg (n_bins Z) (n_basis self) T' \<and> mat_nonneg (n_basis self) (n_frames Z) V'"
proof -
  from update_rule_halves[OF assms(9)]
  have T': "T' = basis_half self Z T V" and V': "V' = activation_half self Z T' V" by simp_all
  have 1: "mat_nonneg (n_bins Z) (n_basis self) T'"
    unfolding T' by (rule basis_half_nonneg) (fact assms)+
  have 2: "mat_nonneg (n_basis self) (n_frames Z) V'"
    unfolding V' by (rule activation_half_nonneg) (fact assms 1)+
  from 1 2 show ?thesis ..
qed

lemma update_once_nonneg:
  assumes "0 < eps self" and "1 \<le> domain self" and "domain self \<le> 2"
      and "cls self = TNMF \<Longrightarrow> 0 \<le> nu self"
      and "\<not> (cls self = CauchyNMF \<and> algorithm self = ''me'')"
      and "target self = Some Z" and "basis self = Some T" and "activation self = Some V"
      and "mat_nonneg (n_bins Z) (n_basis self) T"
      and "mat_nonneg (n_basis self) (n_frames Z) V"
      and "mat_nonneg (n_bins Z) (n_frames Z) (entries Z)"
      and "update_once self = Inr self'"
  shows "\<exists>T' V'. basis self' = Some T' \<and> activation self' = Some V'
           \<and> mat_nonneg (n_bins Z) (n_basis self) T' \<and> mat_nonneg (n_basis self) (n_frames Z) V'"
proof -
  from assms(6,7,8,12) obtain T' V'
    where r: "update_rule self Z T V = Inr (T', V')"
      and s: "self' = self\<lparr>basis := Some T', activation := Some V'\<rparr>"
    by (auto simp: update_once_eq split: sum.splits)
  from update_rule_nonneg[OF assms(1-5) assms(9-11) r] s show ?thesis by simp
qed

subsection \<open>The loss of the Euclidean and of the Cauchy engine\<close>








subsection \<open>Loss trace through a call of the complex engine\<close>






subsection \<open>Calls that complete\<close>










lemma supported_update_once_nonneg:
  assumes "supported self" and "\<not> (cls self = CauchyNMF \<and> algorithm self = ''me'')"
      and "target self = Some Z" and "basis self = Some T" and "activation self = Some V"
      and "mat_nonneg (n_bins Z) (n_basis self) T"
      and "mat_nonneg (n_basis self) (n_frames Z) V"
      and "mat_nonneg (n_bins Z) (n_frames Z) (entries Z)"
      and "update_once self = Inr self'"
  shows "\<exists>T' V'. basis self' = Some T' \<and> activation self' = Some V'
           \<and> mat_nonneg (n_bins Z) (n_basis self) T' \<and> mat_nonneg (n_basis self) (n_frames Z) V'"
proof -
  from assms(1) have "0 < eps self" "1 \<le> domain self" "domain self \<le> 2"
    "cls self = TNMF \<Longrightarrow> 0 \<le> nu self"
    by (auto simp: supported_def split: engine_class.splits)
  then show ?thesis
    using assms(2-9) by (rule update_once_nonneg)
qed

subsection \<open>Runs whose losses are finite and non-negative\<close>




subsection \<open>Losses that are never negative\<close>













section \<open>Properties\<close>

subsection \<open>Construction\<close>

text \<open>
  C7. Every constructor of a real engine rejects a \<open>domain\<close> outside \<open>[1, 2]\<close>: the
  assertion fails inside \<^verbatim>\<open>__init__\<close>, so no engine exists on which an update could
  run. \<^verbatim>\<open>CauchyNMF\<close> accepts only \<open>domain = 2\<close> and so rejects it as well.
\<close>

theorem domain_outside_range_rejected:
  assumes "\<not> (1 \<le> d \<and> d \<le> 2)"
  shows "EUCNMF_init nb d alg e = Inl (AssertionError ''1 <= domain <= 2 is not satisfied.'')
       \<and> KLNMF_init gkl nb d alg e = Inl (AssertionError ''1 <= domain <= 2 is not satisfied.'')
       \<and> ISNMF_init isd nb d alg e = Inl (AssertionError ''1 <= domain <= 2 is not satisfied.'')
       \<and> tNMF_init nb n d alg e = Inl (AssertionError ''1 <= domain <= 2 is not satisfied.'')
       \<and> CauchyNMF_init nb d alg e = Inl (AssertionError ''Only domain = 2 is supported.'')"
  using assms
  by (auto simp: EUCNMF_init_def KLNMF_init_def ISNMF_init_def tNMF_init_def CauchyNMF_init_def)

theorem domain_outside_range_rejected_witness:
  "\<not> (1 \<le> (3::real) \<and> (3::real) \<le> 2)
   \<and> EUCNMF_init 2 3 ''mm'' (1 / 10 ^ 12)
       = Inl (AssertionError ''1 <= domain <= 2 is not satisfied.'')"
  using domain_outside_range_rejected [of 3 2 "''mm''" "1 / 10 ^ 12"]
  by simp

subsection \<open>The Euclidean update formula\<close>

text \<open>
  C4 (as amended). For a domain in \<open>[1, 2]\<close> the Euclidean MM step returns the basis
  multiplied elementwise by (numerator / floored denominator) to the power
  \<open>domain / (4 - domain)\<close>, with numerator \<open>(target * R^((2 - domain) / domain)) @ V^T\<close> and
  denominator \<open>R^((4 - domain) / domain) @ V^T\<close>, where \<open>R\<close> is the product \<open>T @ V\<close> floored
  elementwise at \<open>eps\<close>; the activation is updated by the symmetric formula with the same
  exponent, from the new basis.
\<close>

theorem euclidean_update_formula:
  assumes "1 \<le> domain self" and "domain self \<le> 2"
  shows "EUCNMF_update_once_mm self Z T V =
           Inr (EUC_basis_update (eps self) (domain self) (n_basis self) (n_frames Z) (entries Z) T V,
                EUC_activation_update (eps self) (domain self) (n_basis self) (n_bins Z) (entries Z)
                  (EUC_basis_update (eps self) (domain self) (n_basis self) (n_frames Z) (entries Z) T V) V)"
  using assms by (intro EUCNMF_update_once_mm_eq) auto

theorem euclidean_update_formula_witness:
  "1 \<le> domain euc_engine \<and> domain euc_engine \<le> 2
   \<and> EUCNMF_update_once_mm euc_engine unit_target small_basis three_activation =
       Inr (EUC_basis_update EPS 2 1 1 (entries unit_target) small_basis three_activation,
            EUC_activation_update EPS 2 1 1 (entries unit_target)
              (EUC_basis_update EPS 2 1 1 (entries unit_target) small_basis three_activation)
              three_activation)"
  using euclidean_update_formula [of euc_engine unit_target small_basis three_activation]
  by (simp add: euc_engine_def NMFbase_init_def unit_target_def)

text \<open>
  The formula with the unfloored product \<open>T @ V\<close> differs from the step: for a basis
  entry \<open>1 / (4 * 10^12)\<close>, activation 3, target 1, \<open>domain = 2\<close> and the default \<open>eps\<close>,
  the product \<open>3 / (4 * 10^12)\<close> lies below \<open>eps\<close>; the step returns \<open>1/4\<close>, the unfloored
  formula gives \<open>1/3\<close>.
\<close>

theorem unfloored_formula_counterexample:
  "EUCNMF_init 1 2 ''mm'' EPS = Inr euc_engine
   \<and> fst (projr (EUCNMF_update_once_mm euc_engine unit_target small_basis three_activation)) 0 0
       = Fin (1 / 4)
   \<and> EUC_basis_update_unfloored (eps euc_engine) (domain euc_engine) (n_basis euc_engine)
       (n_frames unit_target) (entries unit_target) small_basis three_activation 0 0
       = Fin (1 / 3)"
  by (simp add: EUCNMF_init_def EUCNMF_update_once_mm_def EUC_basis_update_unfloored_def
      euc_engine_def NMFbase_init_def unit_target_def small_basis_def three_activation_def EPS_def
      Let_def matmul_def floor_eps_def mpow_def emul_def ediv_def transpose_m_def)

subsection \<open>Order of the two half-steps\<close>

text \<open>
  C8. Whenever a rule of a real engine returns a new pair, the new basis is the basis
  half of that rule computed from the old pair, and the new activation is the
  activation half of that rule computed from the new basis (and the old activation):
  the basis is replaced first, and the reconstruction in the second half is formed with
  the basis just updated, not with the basis from the start of the step.
\<close>

theorem activation_uses_updated_basis:
  assumes "update_rule self Z T V = Inr (T', V')"
  shows "T' = basis_half self Z T V
       \<and> V' = activation_half self Z (basis_half self Z T V) V"
  using update_rule_halves [OF assms] by simp

theorem activation_uses_updated_basis_witness:
  "update_rule euc_engine unit_target small_basis three_activation =
     Inr (EUC_basis_update EPS 2 1 1 (entries unit_target) small_basis three_activation,
          EUC_activation_update EPS 2 1 1 (entries unit_target)
            (EUC_basis_update EPS 2 1 1 (entries unit_target) small_basis three_activation)
            three_activation)
   \<and> EUC_basis_update EPS 2 1 1 (entries unit_target) small_basis three_activation
     = basis_half euc_engine unit_target small_basis three_activation
   \<and> EUC_activation_update EPS 2 1 1 (entries unit_target)
            (EUC_basis_update EPS 2 1 1 (entries unit_target) small_basis three_activation)
            three_activation
     = activation_half euc_engine unit_target
         (basis_half euc_engine unit_target small_basis three_activation)
         three_activation"
  using activation_uses_updated_basis [OF euc_update_rule] euc_update_rule
  by (intro conjI) (erule conjunct1 conjunct2 | assumption)+

text \<open>
  On this input (basis \<open>1 / (4 * 10^12)\<close>, activation 3, target 1) the step returns the
  basis \<open>1/4\<close> and the activation 4, which is the activation half at the new basis; the
  activation half at the old basis is \<open>3/4\<close>, and the old basis is not \<open>1/4\<close>. So the
  statement above distinguishes the two orders, and a step that kept its basis would
  not satisfy it.
\<close>

lemma new_basis_changes_activation:
  "fst (projr (update_rule euc_engine unit_target small_basis three_activation)) 0 0 = Fin (1 / 4)
   \<and> snd (projr (update_rule euc_engine unit_target small_basis three_activation)) 0 0 = Fin 4
   \<and> basis_half euc_engine unit_target small_basis three_activation 0 0 = Fin (1 / 4)
   \<and> activation_half euc_engine unit_target
        (basis_half euc_engine unit_target small_basis three_activation) three_activation 0 0
      = Fin 4
   \<and> activation_half euc_engine unit_target small_basis three_activation 0 0 = Fin (3 / 4)
   \<and> small_basis 0 0 = Fin (1 / (4 * 10 ^ 12))"
  by (simp add: update_rule_def activation_half_def basis_half_def EUCNMF_update_once_mm_def
      EUC_activation_update_def EUC_basis_update_def
      euc_engine_def NMFbase_init_def unit_target_def small_basis_def three_activation_def EPS_def
      Let_def matmul_def floor_eps_def mpow_def emul_def ediv_def transpose_m_def)

subsection \<open>The loss of the Cauchy engine\<close>

lemma cauchy_init: "CauchyNMF_init 1 2 ''naive-multipricative'' EPS = Inr cauchy_engine"
  by (simp add: CauchyNMF_init_def cauchy_engine_def)

lemma cauchy_call_returns:
  "\<exists>self T V. call cauchy_engine (Some unit_target) 1 half_draw half_draw = Inr (self, T, V)"
  by (simp add: call_def reset_def update_iteration_def update_once_eq update_rule_def
      CauchyNMF_update_once_naive_def logged_loss_def base_loss_def criterion_def
      cauchy_engine_def NMFbase_init_def Let_def)

text \<open>
  C9. An engine built by the \<^verbatim>\<open>CauchyNMF\<close> constructor has \<open>domain = 2\<close>, and keeps it
  through every call. For such an engine the loss of the inherited loop (the criterion
  of \<open>T @ V\<close>) is the loss the other engines log (the criterion of
  \<open>(T @ V)**(2 / domain)\<close>), whatever the factors and the target are.
\<close>

theorem cauchy_losses_agree:
  assumes "CauchyNMF_init nb d alg e = Inr self0"
      and "call self0 tgt it r1 r2 = Inr (self, T, V)"
  shows "domain self = 2 \<and> logged_loss self Z T' V' = base_loss self Z T' V'
       \<and> base_loss self Z T' V' = domain_loss self Z T' V'"
proof -
  from assms(1) have "domain self0 = 2" "cls self0 = CauchyNMF"
    by (auto simp: CauchyNMF_init_def NMFbase_init_def split: if_splits)
  with call_config[OF assms(2)] have "domain self = 2" "cls self = CauchyNMF" by simp_all
  then show ?thesis
    by (simp add: logged_loss_def base_loss_def domain_loss_def mpow_def fl_pow_one)
qed

theorem cauchy_losses_agree_witness:
  "\<exists>self T V. CauchyNMF_init 1 2 ''naive-multipricative'' EPS = Inr cauchy_engine
     \<and> call cauchy_engine (Some unit_target) 1 half_draw half_draw = Inr (self, T, V)
     \<and> domain self = 2
     \<and> base_loss self unit_target T V = domain_loss self unit_target T V"
proof -
  from cauchy_call_returns obtain self T V
    where c: "call cauchy_engine (Some unit_target) 1 half_draw half_draw = Inr (self, T, V)"
    by blast
  from cauchy_losses_agree [OF cauchy_init c, of unit_target T V] cauchy_init c
  show ?thesis by blast
qed

subsection \<open>When a configuration error is raised\<close>

lemma call_zero_iterations:
  "it \<le> 0 \<Longrightarrow> call self (Some Z) it r1 r2 =
     Inr (self\<lparr>target := Some Z, basis := Some (\<lambda>i k. Fin (r1 i k)), activation := Some (\<lambda>k j. Fin (r2 k j))\<rparr>,
          (\<lambda>i k. Fin (r1 i k)), (\<lambda>k j. Fin (r2 k j)))"
  by (simp add: call_def reset_def)

text \<open>
  An error of the first update step: \<^verbatim>\<open>_reset\<close> has returned the engine with its factors
  drawn, \<^verbatim>\<open>update_once\<close> fails on that engine, a call of zero iterations returns the
  drawn factors and a call of at least one iteration fails with the same error.
\<close>

lemma first_step_error:
  assumes "update_once (self\<lparr>target := Some Z, basis := Some (\<lambda>i k. Fin (r1 i k)),
                              activation := Some (\<lambda>k j. Fin (r2 k j))\<rparr>) = Inl err"
  shows "\<exists>s0. reset (self\<lparr>target := Some Z\<rparr>) r1 r2 = Inr s0
           \<and> basis s0 = Some (\<lambda>i k. Fin (r1 i k))
           \<and> activation s0 = Some (\<lambda>k j. Fin (r2 k j))
           \<and> update_once s0 = Inl err
           \<and> call self (Some Z) 0 r1 r2 = Inr (s0, \<lambda>i k. Fin (r1 i k), \<lambda>k j. Fin (r2 k j))
           \<and> (0 < it \<longrightarrow> call self (Some Z) it r1 r2 = Inl err)"
proof -
  let ?s0 = "self\<lparr>target := Some Z, basis := Some (\<lambda>i k. Fin (r1 i k)),
                   activation := Some (\<lambda>k j. Fin (r2 k j))\<rparr>"
  have r: "reset (self\<lparr>target := Some Z\<rparr>) r1 r2 = Inr ?s0"
    by (simp add: reset_def)
  have z: "call self (Some Z) 0 r1 r2 = Inr (?s0, \<lambda>i k. Fin (r1 i k), \<lambda>k j. Fin (r2 k j))"
    by (simp add: call_zero_iterations)
  have f: "call self (Some Z) it r1 r2 = Inl err" if "0 < it"
  proof -
    from that obtain m where m: "nat it = Suc m" by (cases "nat it") auto
    show ?thesis using r assms by (simp add: call_def m update_iteration_def)
  qed
  show ?thesis using r z f assms by (intro exI[of _ ?s0]) simp
qed

text \<open>
  C3 (as amended). Rejected by the constructor, so raised before any run: an algorithm
  other than \<^verbatim>\<open>'mm'\<close> for the Euclidean and KL engines, whatever the domain, and a domain
  other than 2 for the Cauchy engine, whatever the algorithm. Accepted by the
  constructor and raised inside the first update step of a run: for a domain in
  \<open>[1, 2]\<close> other than 2, \<^verbatim>\<open>ISNMF\<close> with algorithm \<^verbatim>\<open>'me'\<close> and \<^verbatim>\<open>tNMF\<close> with algorithm
  \<^verbatim>\<open>'mm'\<close> raise \<^verbatim>\<open>AssertionError\<close>; an algorithm name that the class does not dispatch
  on (other than \<^verbatim>\<open>'mm'\<close>, \<^verbatim>\<open>'me'\<close> for \<^verbatim>\<open>ISNMF\<close>, other than \<^verbatim>\<open>'mm'\<close> for \<^verbatim>\<open>tNMF\<close>, other than
  the four names of \<^verbatim>\<open>CauchyNMF\<close>) raises \<^verbatim>\<open>ValueError\<close>. In each of these cases the
  constructor returns an engine, \<^verbatim>\<open>_reset\<close> returns it with basis and activation drawn,
  \<^verbatim>\<open>update_once\<close> on that engine raises, a run of zero iterations returns the drawn
  factors, and a run of at least one iteration raises that error.
\<close>

theorem configuration_error_timing:
  "(alg \<noteq> ''mm'' \<longrightarrow>
       EUCNMF_init nb d alg e
         = Inl (AssertionError (if 1 \<le> d \<and> d \<le> 2 then ''algorithm must be mm.''
                                else ''1 <= domain <= 2 is not satisfied.''))
       \<and> KLNMF_init gkl nb d alg e
         = Inl (AssertionError (if 1 \<le> d \<and> d \<le> 2 then ''algorithm must be mm.''
                                else ''1 <= domain <= 2 is not satisfied.'')))
   \<and> (d \<noteq> 2 \<longrightarrow>
         CauchyNMF_init nb d alg e = Inl (AssertionError ''Only domain = 2 is supported.''))
   \<and> (1 \<le> d \<and> d \<le> 2 \<and> d \<noteq> 2 \<longrightarrow>
         (\<exists>self s0. ISNMF_init isd nb d ''me'' e = Inr self
               \<and> reset (self\<lparr>target := Some Z\<rparr>) r1 r2 = Inr s0
               \<and> basis s0 = Some (\<lambda>i k. Fin (r1 i k))
               \<and> activation s0 = Some (\<lambda>k j. Fin (r2 k j))
               \<and> update_once s0 = Inl (AssertionError ''Only domain = 2 is supported.'')
               \<and> call self (Some Z) 0 r1 r2
                   = Inr (s0, \<lambda>i k. Fin (r1 i k), \<lambda>k j. Fin (r2 k j))
               \<and> (0 < it \<longrightarrow>
                    call self (Some Z) it r1 r2 = Inl (AssertionError ''Only domain = 2 is supported.''))))
   \<and> (1 \<le> d \<and> d \<le> 2 \<and> d \<noteq> 2 \<longrightarrow>
         (\<exists>self s0. tNMF_init nb n d ''mm'' e = Inr self
               \<and> reset (self\<lparr>target := Some Z\<rparr>) r1 r2 = Inr s0
               \<and> basis s0 = Some (\<lambda>i k. Fin (r1 i k))
               \<and> activation s0 = Some (\<lambda>k j. Fin (r2 k j))
               \<and> update_once s0 = Inl (AssertionError ''domain is expected 2.'')
               \<and> call self (Some Z) 0 r1 r2
                   = Inr (s0, \<lambda>i k. Fin (r1 i k), \<lambda>k j. Fin (r2 k j))
               \<and> (0 < it \<longrightarrow>
                    call self (Some Z) it r1 r2 = Inl (AssertionError ''domain is expected 2.''))))
   \<and> (1 \<le> d \<and> d \<le> 2 \<and> alg \<noteq> ''mm'' \<and> alg \<noteq> ''me'' \<longrightarrow>
         (\<exists>self s0. ISNMF_init isd nb d alg e = Inr self
               \<and> reset (self\<lparr>target := Some Z\<rparr>) r1 r2 = Inr s0
               \<and> basis s0 = Some (\<lambda>i k. Fin (r1 i k))
               \<and> activation s0 = Some (\<lambda>k j. Fin (r2 k j))
               \<and> update_once s0 = Inl (ValueError (''Not support '' @ alg @ '' based update.''))
               \<and> call self (Some Z) 0 r1 r2
                   = Inr (s0, \<lambda>i k. Fin (r1 i k), \<lambda>k j. Fin (r2 k j))
               \<and> (0 < it \<longrightarrow>
                    call self (Some Z) it r1 r2 = Inl (ValueError (''Not support '' @ alg @ '' based update.'')))))
   \<and> (1 \<le> d \<and> d \<le> 2 \<and> alg \<noteq> ''mm'' \<longrightarrow>
         (\<exists>self s0. tNMF_init nb n d alg e = Inr self
               \<and> reset (self\<lparr>target := Some Z\<rparr>) r1 r2 = Inr s0
               \<and> basis s0 = Some (\<lambda>i k. Fin (r1 i k))
               \<and> activation s0 = Some (\<lambda>k j. Fin (r2 k j))
               \<and> update_once s0 = Inl (ValueError (''Not support '' @ alg @ '' based update.''))
               \<and> call self (Some Z) 0 r1 r2
                   = Inr (s0, \<lambda>i k. Fin (r1 i k), \<lambda>k j. Fin (r2 k j))
               \<and> (0 < it \<longrightarrow>
                    call self (Some Z) it r1 r2 = Inl (ValueError (''Not support '' @ alg @ '' based update.'')))))
   \<and> (alg \<noteq> ''naive-multipricative'' \<and> alg \<noteq> ''mm'' \<and> alg \<noteq> ''me'' \<and> alg \<noteq> ''mm_fast''
         \<longrightarrow>
         (\<exists>self s0. CauchyNMF_init nb 2 alg e = Inr self
               \<and> reset (self\<lparr>target := Some Z\<rparr>) r1 r2 = Inr s0
               \<and> basis s0 = Some (\<lambda>i k. Fin (r1 i k))
               \<and> activation s0 = Some (\<lambda>k j. Fin (r2 k j))
               \<and> update_once s0 = Inl (ValueError (''Not support '' @ alg @ '' based update.''))
               \<and> call self (Some Z) 0 r1 r2
                   = Inr (s0, \<lambda>i k. Fin (r1 i k), \<lambda>k j. Fin (r2 k j))
               \<and> (0 < it \<longrightarrow>
                    call self (Some Z) it r1 r2 = Inl (ValueError (''Not support '' @ alg @ '' based update.'')))))"
proof (intro conjI impI)
  assume "alg \<noteq> ''mm''"
  then show "EUCNMF_init nb d alg e
         = Inl (AssertionError (if 1 \<le> d \<and> d \<le> 2 then ''algorithm must be mm.''
                                else ''1 <= domain <= 2 is not satisfied.''))"
    by (simp add: EUCNMF_init_def)
next
  assume "alg \<noteq> ''mm''"
  then show "KLNMF_init gkl nb d alg e
         = Inl (AssertionError (if 1 \<le> d \<and> d \<le> 2 then ''algorithm must be mm.''
                                else ''1 <= domain <= 2 is not satisfied.''))"
    by (simp add: KLNMF_init_def)
next
  assume "d \<noteq> 2"
  then show "CauchyNMF_init nb d alg e = Inl (AssertionError ''Only domain = 2 is supported.'')"
    by (simp add: CauchyNMF_init_def)
next
  assume h: "1 \<le> d \<and> d \<le> 2 \<and> d \<noteq> 2"
  let ?s = "(NMFbase_init ISNMF nb e)\<lparr>domain := d, algorithm := ''me'', divergence := isd\<rparr>"
  have c: "ISNMF_init isd nb d ''me'' e = Inr ?s"
    using h by (simp add: ISNMF_init_def)
  have "update_once (?s\<lparr>target := Some Z, basis := Some (\<lambda>i k. Fin (r1 i k)),
                          activation := Some (\<lambda>k j. Fin (r2 k j))\<rparr>)
          = Inl (AssertionError ''Only domain = 2 is supported.'')"
    using h by (simp add: update_once_def dispatch_error_def domain_assertion_def NMFbase_init_def)
  from first_step_error[OF this, of it] c
  show "(\<exists>self s0. ISNMF_init isd nb d ''me'' e = Inr self
               \<and> reset (self\<lparr>target := Some Z\<rparr>) r1 r2 = Inr s0
               \<and> basis s0 = Some (\<lambda>i k. Fin (r1 i k))
               \<and> activation s0 = Some (\<lambda>k j. Fin (r2 k j))
               \<and> update_once s0 = Inl (AssertionError ''Only domain = 2 is supported.'')
               \<and> call self (Some Z) 0 r1 r2
                   = Inr (s0, \<lambda>i k. Fin (r1 i k), \<lambda>k j. Fin (r2 k j))
               \<and> (0 < it \<longrightarrow>
                    call self (Some Z) it r1 r2 = Inl (AssertionError ''Only domain = 2 is supported.'')))"
    by blast
next
  assume h: "1 \<le> d \<and> d \<le> 2 \<and> d \<noteq> 2"
  let ?s = "(NMFbase_init TNMF nb e)\<lparr>nu := n, domain := d, algorithm := ''mm''\<rparr>"
  have c: "tNMF_init nb n d ''mm'' e = Inr ?s"
    using h by (simp add: tNMF_init_def)
  have "update_once (?s\<lparr>target := Some Z, basis := Some (\<lambda>i k. Fin (r1 i k)),
                          activation := Some (\<lambda>k j. Fin (r2 k j))\<rparr>)
          = Inl (AssertionError ''domain is expected 2.'')"
    using h by (simp add: update_once_def dispatch_error_def domain_assertion_def NMFbase_init_def)
  from first_step_error[OF this, of it] c
  show "(\<exists>self s0. tNMF_init nb n d ''mm'' e = Inr self
               \<and> reset (self\<lparr>target := Some Z\<rparr>) r1 r2 = Inr s0
               \<and> basis s0 = Some (\<lambda>i k. Fin (r1 i k))
               \<and> activation s0 = Some (\<lambda>k j. Fin (r2 k j))
               \<and> update_once s0 = Inl (AssertionError ''domain is expected 2.'')
               \<and> call self (Some Z) 0 r1 r2
                   = Inr (s0, \<lambda>i k. Fin (r1 i k), \<lambda>k j. Fin (r2 k j))
               \<and> (0 < it \<longrightarrow>
                    call self (Some Z) it r1 r2 = Inl (AssertionError ''domain is expected 2.'')))"
    by blast
next
  assume h: "1 \<le> d \<and> d \<le> 2 \<and> alg \<noteq> ''mm'' \<and> alg \<noteq> ''me''"
  let ?s = "(NMFbase_init ISNMF nb e)\<lparr>domain := d, algorithm := alg, divergence := isd\<rparr>"
  have c: "ISNMF_init isd nb d alg e = Inr ?s"
    using h by (simp add: ISNMF_init_def)
  have "update_once (?s\<lparr>target := Some Z, basis := Some (\<lambda>i k. Fin (r1 i k)),
                          activation := Some (\<lambda>k j. Fin (r2 k j))\<rparr>)
          = Inl (ValueError (''Not support '' @ alg @ '' based update.''))"
    using h by (simp add: update_once_def dispatch_error_def NMFbase_init_def)
  from first_step_error[OF this, of it] c
  show "(\<exists>self s0. ISNMF_init isd nb d alg e = Inr self
               \<and> reset (self\<lparr>target := Some Z\<rparr>) r1 r2 = Inr s0
               \<and> basis s0 = Some (\<lambda>i k. Fin (r1 i k))
               \<and> activation s0 = Some (\<lambda>k j. Fin (r2 k j))
               \<and> update_once s0 = Inl (ValueError (''Not support '' @ alg @ '' based update.''))
               \<and> call self (Some Z) 0 r1 r2
                   = Inr (s0, \<lambda>i k. Fin (r1 i k), \<lambda>k j. Fin (r2 k j))
               \<and> (0 < it \<longrightarrow>
                    call self (Some Z) it r1 r2 = Inl (ValueError (''Not support '' @ alg @ '' based update.''))))"
    by blast
next
  assume h: "1 \<le> d \<and> d \<le> 2 \<and> alg \<noteq> ''mm''"
  let ?s = "(NMFbase_init TNMF nb e)\<lparr>nu := n, domain := d, algorithm := alg\<rparr>"
  have c: "tNMF_init nb n d alg e = Inr ?s"
    using h by (simp add: tNMF_init_def)
  have "update_once (?s\<lparr>target := Some Z, basis := Some (\<lambda>i k. Fin (r1 i k)),
                          activation := Some (\<lambda>k j. Fin (r2 k j))\<rparr>)
          = Inl (ValueError (''Not support '' @ alg @ '' based update.''))"
    using h by (simp add: update_once_def dispatch_error_def NMFbase_init_def)
  from first_step_error[OF this, of it] c
  show "(\<exists>self s0. tNMF_init nb n d alg e = Inr self
               \<and> reset (self\<lparr>target := Some Z\<rparr>) r1 r2 = Inr s0
               \<and> basis s0 = Some (\<lambda>i k. Fin (r1 i k))
               \<and> activation s0 = Some (\<lambda>k j. Fin (r2 k j))
               \<and> update_once s0 = Inl (ValueError (''Not support '' @ alg @ '' based update.''))
               \<and> call self (Some Z) 0 r1 r2
                   = Inr (s0, \<lambda>i k. Fin (r1 i k), \<lambda>k j. Fin (r2 k j))
               \<and> (0 < it \<longrightarrow>
                    call self (Some Z) it r1 r2 = Inl (ValueError (''Not support '' @ alg @ '' based update.''))))"
    by blast
next
  assume h: "alg \<noteq> ''naive-multipricative'' \<and> alg \<noteq> ''mm'' \<and> alg \<noteq> ''me'' \<and> alg \<noteq> ''mm_fast''"
  let ?s = "(NMFbase_init CauchyNMF nb e)\<lparr>domain := 2, algorithm := alg\<rparr>"
  have c: "CauchyNMF_init nb 2 alg e = Inr ?s"
    using h by (simp add: CauchyNMF_init_def)
  have "update_once (?s\<lparr>target := Some Z, basis := Some (\<lambda>i k. Fin (r1 i k)),
                          activation := Some (\<lambda>k j. Fin (r2 k j))\<rparr>)
          = Inl (ValueError (''Not support '' @ alg @ '' based update.''))"
    using h by (simp add: update_once_def dispatch_error_def NMFbase_init_def)
  from first_step_error[OF this, of it] c
  show "(\<exists>self s0. CauchyNMF_init nb 2 alg e = Inr self
               \<and> reset (self\<lparr>target := Some Z\<rparr>) r1 r2 = Inr s0
               \<and> basis s0 = Some (\<lambda>i k. Fin (r1 i k))
               \<and> activation s0 = Some (\<lambda>k j. Fin (r2 k j))
               \<and> update_once s0 = Inl (ValueError (''Not support '' @ alg @ '' based update.''))
               \<and> call self (Some Z) 0 r1 r2
                   = Inr (s0, \<lambda>i k. Fin (r1 i k), \<lambda>k j. Fin (r2 k j))
               \<and> (0 < it \<longrightarrow>
                    call self (Some Z) it r1 r2 = Inl (ValueError (''Not support '' @ alg @ '' based update.''))))"
    by blast
qed

text \<open>
  At domain \<open>3/2\<close>, the algorithm name \<^verbatim>\<open>'em'\<close>, two bases, the default \<open>eps\<close>, the (1, 1)
  target 1, draws \<open>1/2\<close> and one iteration every hypothesis above holds.
\<close>

theorem configuration_error_timing_witness:
  "''em'' \<noteq> ''mm'' \<and> ''em'' \<noteq> ''me'' \<and> ''em'' \<noteq> ''naive-multipricative'' \<and> ''em'' \<noteq> ''mm_fast''
   \<and> (1::real) \<le> 3 / 2 \<and> (3::real) / 2 \<le> 2 \<and> (3::real) / 2 \<noteq> 2 \<and> (0::int) < 1
   \<and> EUCNMF_init 2 (3 / 2) ''em'' EPS = Inl (AssertionError ''algorithm must be mm.'')
   \<and> KLNMF_init is_divergence_example 2 (3 / 2) ''em'' EPS = Inl (AssertionError ''algorithm must be mm.'')
   \<and> CauchyNMF_init 2 (3 / 2) ''em'' EPS = Inl (AssertionError ''Only domain = 2 is supported.'')
   \<and> (\<exists>self s0. ISNMF_init is_divergence_example 2 (3 / 2) ''me'' EPS = Inr self
               \<and> reset (self\<lparr>target := Some unit_target\<rparr>) half_draw half_draw = Inr s0
               \<and> basis s0 = Some (\<lambda>i k. Fin (half_draw i k))
               \<and> activation s0 = Some (\<lambda>k j. Fin (half_draw k j))
               \<and> update_once s0 = Inl (AssertionError ''Only domain = 2 is supported.'')
               \<and> call self (Some unit_target) 0 half_draw half_draw
                   = Inr (s0, \<lambda>i k. Fin (half_draw i k), \<lambda>k j. Fin (half_draw k j))
               \<and> (0 < (1::int) \<and>
                    call self (Some unit_target) (1::int) half_draw half_draw = Inl (AssertionError ''Only domain = 2 is supported.'')))
   \<and> (\<exists>self s0. tNMF_init 2 1000 (3 / 2) ''mm'' EPS = Inr self
               \<and> reset (self\<lparr>target := Some unit_target\<rparr>) half_draw half_draw = Inr s0
               \<and> basis s0 = Some (\<lambda>i k. Fin (half_draw i k))
               \<and> activation s0 = Some (\<lambda>k j. Fin (half_draw k j))
               \<and> update_once s0 = Inl (AssertionError ''domain is expected 2.'')
               \<and> call self (Some unit_target) 0 half_draw half_draw
                   = Inr (s0, \<lambda>i k. Fin (half_draw i k), \<lambda>k j. Fin (half_draw k j))
               \<and> (0 < (1::int) \<and>
                    call self (Some unit_target) (1::int) half_draw half_draw = Inl (AssertionError ''domain is expected 2.'')))
   \<and> (\<exists>self s0. ISNMF_init is_divergence_example 2 (3 / 2) ''em'' EPS = Inr self
               \<and> reset (self\<lparr>target := Some unit_target\<rparr>) half_draw half_draw = Inr s0
               \<and> basis s0 = Some (\<lambda>i k. Fin (half_draw i k))
               \<and> activation s0 = Some (\<lambda>k j. Fin (half_draw k j))
               \<and> update_once s0 = Inl (ValueError ''Not support em based update.'')
               \<and> call self (Some unit_target) 0 half_draw half_draw
                   = Inr (s0, \<lambda>i k. Fin (half_draw i k), \<lambda>k j. Fin (half_draw k j))
               \<and> (0 < (1::int) \<and>
                    call self (Some unit_target) (1::int) half_draw half_draw = Inl (ValueError ''Not support em based update.'')))
   \<and> (\<exists>self s0. tNMF_init 2 1000 (3 / 2) ''em'' EPS = Inr self
               \<and> reset (self\<lparr>target := Some unit_target\<rparr>) half_draw half_draw = Inr s0
               \<and> basis s0 = Some (\<lambda>i k. Fin (half_draw i k))
               \<and> activation s0 = Some (\<lambda>k j. Fin (half_draw k j))
               \<and> update_once s0 = Inl (ValueError ''Not support em based update.'')
               \<and> call self (Some unit_target) 0 half_draw half_draw
                   = Inr (s0, \<lambda>i k. Fin (half_draw i k), \<lambda>k j. Fin (half_draw k j))
               \<and> (0 < (1::int) \<and>
                    call self (Some unit_target) (1::int) half_draw half_draw = Inl (ValueError ''Not support em based update.'')))
   \<and> (\<exists>self s0. CauchyNMF_init 2 2 ''em'' EPS = Inr self
               \<and> reset (self\<lparr>target := Some unit_target\<rparr>) half_draw half_draw = Inr s0
               \<and> basis s0 = Some (\<lambda>i k. Fin (half_draw i k))
               \<and> activation s0 = Some (\<lambda>k j. Fin (half_draw k j))
               \<and> update_once s0 = Inl (ValueError ''Not support em based update.'')
               \<and> call self (Some unit_target) 0 half_draw half_draw
                   = Inr (s0, \<lambda>i k. Fin (half_draw i k), \<lambda>k j. Fin (half_draw k j))
               \<and> (0 < (1::int) \<and>
                    call self (Some unit_target) (1::int) half_draw half_draw = Inl (ValueError ''Not support em based update.'')))"
  using configuration_error_timing [where d = "3 / 2" and it = 1 and alg = "''em''" and nb = 2
      and e = EPS and isd = is_divergence_example
      and gkl = is_divergence_example and Z = unit_target and ?r1.0 = half_draw
      and ?r2.0 = half_draw and n = 1000]
  by simp

text \<open>
  The claim as worded fails at \<^verbatim>\<open>ISNMF(n_basis=2, domain=1.5, algorithm='me')\<close> and at
  \<^verbatim>\<open>tNMF(n_basis=2, nu=1000, domain=1.5)\<close>: both constructors return an engine, a call
  with \<open>iteration = 0\<close> returns, and a call with \<open>iteration = 1\<close> raises.
\<close>

theorem construction_accepts_late_error_counterexample:
  "ISNMF_init is_divergence_example 2 (3 / 2) ''me'' EPS = Inr is_me_engine
   \<and> \<not> isl (call is_me_engine (Some unit_target) 0 half_draw half_draw)
   \<and> call is_me_engine (Some unit_target) 1 half_draw half_draw
       = Inl (AssertionError ''Only domain = 2 is supported.'')
   \<and> tNMF_init 2 1000 (3 / 2) ''mm'' EPS = Inr t_engine
   \<and> \<not> isl (call t_engine (Some unit_target) 0 half_draw half_draw)
   \<and> call t_engine (Some unit_target) 1 half_draw half_draw
       = Inl (AssertionError ''domain is expected 2.'')"
  by (simp add: ISNMF_init_def tNMF_init_def is_me_engine_def t_engine_def call_def reset_def
      update_iteration_def update_once_eq update_rule_def ISNMF_update_once_me_def
      tNMF_update_once_mm_def NMFbase_init_def)

subsection \<open>The auxiliary ratio of the complex engine\<close>





subsection \<open>The auxiliary ratio in float64\<close>

lemma float64_eq:
  assumes "2 powi e \<le> \<bar>x\<bar>" and "\<bar>x\<bar> < 2 powi (e + 1)"
  shows "float64 x = of_int (round_half_even (x / 2 powi (e - 52))) * 2 powi (e - 52)"
proof -
  have p: "0 < (2::real) powi e" by simp
  then have x: "0 < \<bar>x\<bar>" using assms(1) by linarith
  have a: "of_int e \<le> log 2 \<bar>x\<bar>"
    using assms(1) x by (simp add: le_log_iff powr_real_of_int')
  have "(2::real) powr (of_int (e + 1)) = 2 powi (e + 1)"
    using powr_real_of_int'[of "2::real" "e + 1"] by simp
  then have b: "log 2 \<bar>x\<bar> < of_int (e + 1)"
    using assms(2) x by (simp only: log_less_iff[of 2 "\<bar>x\<bar>" "of_int (e + 1)"])
  have "\<lfloor>log 2 \<bar>x\<bar>\<rfloor> = e" using a b by (simp add: floor_eq_iff)
  then show ?thesis using x by (simp add: float64_def)
qed

lemma float64_below_two:
  assumes "1 \<le> \<bar>x\<bar> * 2 ^ m" and "\<bar>x\<bar> * 2 ^ m < 2"
  shows "float64 x = of_int (round_half_even (x * 2 ^ (52 + m))) / 2 ^ (52 + m)"
proof -
  have e: "(2::real) powi (- int m) = 1 / 2 ^ m" "(2::real) powi (- int m + 1) = 2 / 2 ^ m"
    "(2::real) powi (- int m - 52) = 1 / 2 ^ (52 + m)"
    using power_int_add[of "2::real" "- int m" 1] power_int_diff[of "2::real" "- int m" 52]
    by (simp_all add: power_int_minus power_add field_simps)
  have "2 powi (- int m) \<le> \<bar>x\<bar>" "\<bar>x\<bar> < 2 powi (- int m + 1)"
    unfolding e using assms by (simp_all add: field_simps)
  from float64_eq[OF this] show ?thesis by (simp add: e field_simps)
qed

lemma float64_above_one:
  assumes "2 ^ n \<le> \<bar>x\<bar>" and "\<bar>x\<bar> < 2 * 2 ^ n" and "n \<le> 52"
  shows "float64 x = of_int (round_half_even (x * 2 ^ (52 - n))) / 2 ^ (52 - n)"
proof -
  have e: "(2::real) powi (int n) = 2 ^ n" "(2::real) powi (int n + 1) = 2 * 2 ^ n"
    "(2::real) powi (int n - 52) = 1 / 2 ^ (52 - n)"
  proof -
    have "int n - 52 = - int (52 - n)" using assms(3) by simp
    then show "(2::real) powi (int n - 52) = 1 / 2 ^ (52 - n)"
      by (simp only: power_int_minus power_int_of_nat inverse_eq_divide)
  qed (use power_int_add[of "2::real" "int n" 1] in simp_all)
  have "2 powi (int n) \<le> \<bar>x\<bar>" "\<bar>x\<bar> < 2 powi (int n + 1)"
    unfolding e using assms by simp_all
  from float64_eq[OF this] show ?thesis by (simp add: e field_simps)
qed

text \<open>The doubles of the example: 1, 4, 5 and 6 are exact, \<open>1/6\<close> and \<open>2/3\<close> round down.\<close>

lemma float64_one: "float64 1 = 1"
  by (subst float64_above_one[where n = 0]) (simp_all add: round_half_even_def Let_def)

lemma float64_four: "float64 4 = 4"
  by (subst float64_above_one[where n = 2]) (simp_all add: round_half_even_def Let_def)

lemma float64_five: "float64 5 = 5"
  by (subst float64_above_one[where n = 2]) (simp_all add: round_half_even_def Let_def)

lemma float64_six: "float64 6 = 6"
  by (subst float64_above_one[where n = 2]) (simp_all add: round_half_even_def Let_def)

lemma float64_sixth: "float64 (1 / 6) = 6004799503160661 / 2 ^ 55"
  by (subst float64_below_two[where m = 3]) (simp_all add: round_half_even_def Let_def)

lemma float64_two_thirds: "float64 (2 / 3) = 6004799503160661 / 2 ^ 53"
  by (subst float64_below_two[where m = 1]) (simp_all add: round_half_even_def Let_def)

lemma float64_first_partial_sum:
  "float64 (6004799503160661 / 2 ^ 55 + 6004799503160661 / 2 ^ 53) = 7505999378950826 / 2 ^ 53"
  by (subst float64_below_two[where m = 1]) (simp_all add: round_half_even_def Let_def)

lemma float64_second_partial_sum:
  "float64 (7505999378950826 / 2 ^ 53 + 6004799503160661 / 2 ^ 55) = 9007199254740991 / 2 ^ 53"
  by (subst float64_below_two[where m = 1]) (simp_all add: round_half_even_def Let_def)

lemma Beta_float64_example:
  "Beta_float64 3 EPS one_four_one ones 0 0 0 = 6004799503160661 / 2 ^ 55"
  "Beta_float64 3 EPS one_four_one ones 0 (Suc 0) 0 = 6004799503160661 / 2 ^ 53"
  "Beta_float64 3 EPS one_four_one ones 0 (Suc (Suc 0)) 0 = 6004799503160661 / 2 ^ 55"
  using float64_sixth float64_two_thirds
  by (simp_all add: Beta_float64_def one_four_one_def ones_def EPS_def numeral_3_eq_3
      float64_one float64_four float64_five float64_six Let_def)

lemma sum_float64_three:
  "sum_float64 3 g = float64 (float64 (g 0 + g (Suc 0)) + g (Suc (Suc 0)))"
  by (simp add: numeral_3_eq_3)

text \<open>
  In float64 the three stored entries of that cell are the doubles nearest to \<open>1/6\<close>,
  \<open>2/3\<close> and \<open>1/6\<close>, each below the exact quotient, and their sum along the basis axis
  is \<open>1 - 2^-53\<close>, the double just below 1: the stored entries do not sum to exactly 1,
  although the exact quotients do.
\<close>

lemma float64_beta_sum_below_one:
  "sum_float64 3 (\<lambda>k. Beta_float64 3 EPS one_four_one ones 0 k 0) = 1 - 1 / 2 ^ 53
   \<and> sum_float64 3 (\<lambda>k. Beta_float64 3 EPS one_four_one ones 0 k 0) \<noteq> 1"
proof -
  have "sum_float64 3 (\<lambda>k. Beta_float64 3 EPS one_four_one ones 0 k 0)
          = 9007199254740991 / 2 ^ 53"
    by (simp only: sum_float64_three Beta_float64_example float64_first_partial_sum
        float64_second_partial_sum)
  then show ?thesis by simp
qed

subsection \<open>The loss of the complex engine\<close>

lemmas complex_defs =
  complex_call_def complex_reset_def update_beta_def complex_update_iteration_def
  complex_update_once_def complex_logged_loss_def complex_engine_def ComplexEUCNMF_init_def
  complex_unit_target_def half_draw_def half_draw3_def EPS_def Beta_of_def TVsum_def
  floor_eps_def mpow_def ediv_def msum_def of_fl_def c_add_def c_sub_def c_mul_def c_conj_def
  arctan2_def minus_fl_def Let_def

text \<open>
  C5, evaluated on the code. One iteration of \<^verbatim>\<open>ComplexEUCNMF(n_basis=1, regularizer=0.1,
  p=1)\<close> on the (1, 1) target \<open>1 + 0j\<close>, with both draws \<open>1/2\<close>, ends with basis 1,
  activation \<open>10/21\<close> and phase 0. The loss the loop appends is 1: it multiplies basis
  and activation by the phase angle itself. The squared magnitude of target minus the
  complex reconstruction \<open>T V exp(i Phi)\<close> at that state is \<open>121/441\<close>.
\<close>

theorem complex_loss_uses_phase_angle:
  "c_loss (fst (projr (complex_call complex_engine (Some complex_unit_target) 1
      half_draw half_draw half_draw3))) = [Fin 1]
   \<and> (case projr (complex_call complex_engine (Some complex_unit_target) 1
      half_draw half_draw half_draw3) of (self, T, V, Phi) \<Rightarrow>
        complex_reconstruction_loss 1 complex_unit_target T V Phi) = Fin (121 / 441)"
  by (simp add: complex_defs complex_reconstruction_loss_def complex_reconstruction_def
      power2_eq_square floor_m1 powi_m1)

subsection \<open>Warm start of the multichannel engine\<close>

text \<open>
  C6. For a target of shape (bins, frames, channels, channels): on an engine fresh from
  the constructor \<^verbatim>\<open>_reset\<close> creates a spatial tensor whose entry at (bin, basis, a, b)
  is 1 where \<open>a = b\<close> and 0 elsewhere, for every bin, basis and pair of channels, so that
  every (bin, basis) slice is the identity matrix; basis and activation are the random
  draws, and a first call of zero iterations returns exactly these three arrays. On an
  engine returned by a completed call \<^verbatim>\<open>_reset\<close> keeps the spatial tensor, the basis and
  the activation that call ended with, whatever the new draws are.
\<close>

theorem multichannel_reset_warm_start:
  assumes "m_shape X = [bins, frames, channels, channels]"
  shows "(\<exists>self1 H1.
            multichannel_reset ((MultichannelISNMF_init nb nrm e)\<lparr>m_target := Some X\<rparr>) r1 r2
              = Inr self1
            \<and> m_spatial self1 = Some H1
            \<and> (\<forall>i<bins. \<forall>k<nb. \<forall>a<channels. \<forall>b<channels.
                 H1 i k a b = (if a = b then Cx (Fin 1) (Fin 0) else Cx (Fin 0) (Fin 0)))
            \<and> m_basis self1 = Some (\<lambda>i k. Fin (r1 i k))
            \<and> m_activation self1 = Some (\<lambda>k j. Fin (r2 k j))
            \<and> multichannel_call ops (MultichannelISNMF_init nb nrm e) (Some X) 0 r1 r2
              = Inr (self1, H1, \<lambda>i k. Fin (r1 i k), \<lambda>k j. Fin (r2 k j)))
       \<and> (multichannel_call ops self0 tgt0 it r1' r2' = Inr (self', H, T, V) \<longrightarrow>
            (\<exists>self2. multichannel_reset (self'\<lparr>m_target := Some X\<rparr>) r1 r2 = Inr self2
              \<and> m_spatial self2 = Some H \<and> m_basis self2 = Some T \<and> m_activation self2 = Some V))"
proof (intro conjI impI)
  let ?s = "(MultichannelISNMF_init nb nrm e)\<lparr>m_target := Some X\<rparr>"
  let ?s1 = "?s\<lparr>m_n_bins := Some bins, m_n_frames := Some frames, m_n_channels := Some channels,
               m_spatial := Some identity_tiles, m_basis := Some (\<lambda>i k. Fin (r1 i k)),
               m_activation := Some (\<lambda>k j. Fin (r2 k j))\<rparr>"
  have r: "multichannel_reset ?s r1 r2 = Inr ?s1"
    using assms by (simp add: multichannel_reset_def MultichannelISNMF_init_def)
  have c: "multichannel_call ops (MultichannelISNMF_init nb nrm e) (Some X) 0 r1 r2
             = Inr (?s1, identity_tiles, \<lambda>i k. Fin (r1 i k), \<lambda>k j. Fin (r2 k j))"
    using r by (simp add: multichannel_call_def)
  have e: "\<forall>i<bins. \<forall>k<nb. \<forall>a<channels. \<forall>b<channels.
             identity_tiles i k a b = (if a = b then Cx (Fin 1) (Fin 0) else Cx (Fin 0) (Fin 0))"
    by (simp add: identity_tiles_def)
  show "\<exists>self1 H1.
            multichannel_reset ?s r1 r2 = Inr self1
            \<and> m_spatial self1 = Some H1
            \<and> (\<forall>i<bins. \<forall>k<nb. \<forall>a<channels. \<forall>b<channels.
                 H1 i k a b = (if a = b then Cx (Fin 1) (Fin 0) else Cx (Fin 0) (Fin 0)))
            \<and> m_basis self1 = Some (\<lambda>i k. Fin (r1 i k))
            \<and> m_activation self1 = Some (\<lambda>k j. Fin (r2 k j))
            \<and> multichannel_call ops (MultichannelISNMF_init nb nrm e) (Some X) 0 r1 r2
              = Inr (self1, H1, \<lambda>i k. Fin (r1 i k), \<lambda>k j. Fin (r2 k j))"
    using r c e by (intro exI[of _ ?s1] exI[of _ identity_tiles]) simp
next
  assume "multichannel_call ops self0 tgt0 it r1' r2' = Inr (self', H, T, V)"
  from multichannel_call_result[OF this] assms
  show "\<exists>self2. multichannel_reset (self'\<lparr>m_target := Some X\<rparr>) r1 r2 = Inr self2
          \<and> m_spatial self2 = Some H \<and> m_basis self2 = Some T \<and> m_activation self2 = Some V"
    by (simp add: multichannel_reset_def)
qed

text \<open>
  A stereo target of shape (1, 1, 2, 2) and one basis. The fresh spatial slice is the
  2 x 2 identity. One iteration whose spatial sub-update doubles the tensor ends with
  2 on the diagonal, and the next \<^verbatim>\<open>_reset\<close> keeps that tensor, the doubled basis 1 and
  the halved activation \<open>1/4\<close> instead of the identity and the draws \<open>1/2\<close>.
\<close>

lemma stereo_call:
  "\<exists>self'. multichannel_call doubling_ops (MultichannelISNMF_init 1 True EPS)
      (Some multichannel_stereo_target) 1 half_draw half_draw
    = Inr (self', \<lambda>i k a b. c_mul (Cx (Fin 2) (Fin 0)) (identity_tiles i k a b),
           \<lambda>i k. Fin 1, \<lambda>k j. Fin (1 / 4))"
  by (simp add: multichannel_call_def multichannel_reset_def multichannel_update_iteration_def
      multichannel_update_once_def doubling_ops_def MultichannelISNMF_init_def
      multichannel_stereo_target_def half_draw_def Let_def)

theorem multichannel_reset_warm_start_witness:
  "m_shape multichannel_stereo_target = [1, 1, 2, 2]
   \<and> (\<exists>self1 H1. multichannel_reset
         ((MultichannelISNMF_init 1 True EPS)\<lparr>m_target := Some multichannel_stereo_target\<rparr>)
         half_draw half_draw = Inr self1
       \<and> m_spatial self1 = Some H1
       \<and> H1 0 0 0 0 = Cx (Fin 1) (Fin 0) \<and> H1 0 0 0 1 = Cx (Fin 0) (Fin 0)
       \<and> H1 0 0 1 0 = Cx (Fin 0) (Fin 0) \<and> H1 0 0 1 1 = Cx (Fin 1) (Fin 0)
       \<and> m_basis self1 = Some (\<lambda>i k. Fin (half_draw i k))
       \<and> m_activation self1 = Some (\<lambda>k j. Fin (half_draw k j)))
   \<and> (\<exists>self' H T V self2.
         multichannel_call doubling_ops (MultichannelISNMF_init 1 True EPS)
           (Some multichannel_stereo_target) 1 half_draw half_draw = Inr (self', H, T, V)
         \<and> H 0 0 0 0 = Cx (Fin 2) (Fin 0) \<and> T 0 0 = Fin 1 \<and> V 0 0 = Fin (1 / 4)
         \<and> multichannel_reset (self'\<lparr>m_target := Some multichannel_stereo_target\<rparr>)
             half_draw half_draw = Inr self2
         \<and> m_spatial self2 = Some H \<and> m_basis self2 = Some T \<and> m_activation self2 = Some V)"
proof -
  have s: "m_shape multichannel_stereo_target = [1, 1, 2, 2]"
    by (simp add: multichannel_stereo_target_def)
  let ?H = "\<lambda>i k a b. c_mul (Cx (Fin 2) (Fin 0)) (identity_tiles i k a b)"
  from stereo_call obtain self'
    where c: "multichannel_call doubling_ops (MultichannelISNMF_init 1 True EPS)
      (Some multichannel_stereo_target) 1 half_draw half_draw
      = Inr (self', ?H, \<lambda>i k. Fin 1, \<lambda>k j. Fin (1 / 4))"
    by blast
  note w = multichannel_reset_warm_start [OF s, where nb = 1 and nrm = True and e = EPS
      and ?r1.0 = half_draw and ?r2.0 = half_draw and ops = doubling_ops
      and ?self0.0 = "MultichannelISNMF_init 1 True EPS"
      and ?tgt0.0 = "Some multichannel_stereo_target" and it = 1
      and r1' = half_draw and r2' = half_draw and self' = self' and H = ?H
      and T = "\<lambda>i k. Fin 1" and V = "\<lambda>k j. Fin (1 / 4)"]
  from w obtain self1 H1
    where f: "multichannel_reset
         ((MultichannelISNMF_init 1 True EPS)\<lparr>m_target := Some multichannel_stereo_target\<rparr>)
         half_draw half_draw = Inr self1"
      "m_spatial self1 = Some H1"
      "\<forall>i<1. \<forall>k<1. \<forall>a<2. \<forall>b<2.
         H1 i k a b = (if a = b then Cx (Fin 1) (Fin 0) else Cx (Fin 0) (Fin 0))"
      "m_basis self1 = Some (\<lambda>i k. Fin (half_draw i k))"
      "m_activation self1 = Some (\<lambda>k j. Fin (half_draw k j))"
    by blast
  from f(3) have h: "H1 0 0 0 0 = Cx (Fin 1) (Fin 0)" "H1 0 0 0 1 = Cx (Fin 0) (Fin 0)"
      "H1 0 0 1 0 = Cx (Fin 0) (Fin 0)" "H1 0 0 1 1 = Cx (Fin 1) (Fin 0)"
    by simp_all
  from w c obtain self2
    where g: "multichannel_reset (self'\<lparr>m_target := Some multichannel_stereo_target\<rparr>)
             half_draw half_draw = Inr self2"
      "m_spatial self2 = Some ?H" "m_basis self2 = Some (\<lambda>i k. Fin 1)"
      "m_activation self2 = Some (\<lambda>k j. Fin (1 / 4))"
    by blast
  have v: "?H 0 0 0 0 = Cx (Fin 2) (Fin 0)"
    by (simp add: identity_tiles_def c_mul_def minus_fl_def)
  show ?thesis using s f(1,2,4,5) h c g v by blast
qed

subsection \<open>Non-negativity of the factors\<close>

text \<open>
  C1, evaluated on the code. \<^verbatim>\<open>CauchyNMF(n_basis=1, algorithm='me')\<close> on the (1, 1) target
  1 with basis 0 and activation \<open>1/2\<close>, all non-negative: \<^verbatim>\<open>update_once_me\<close> divides the
  activation by the unfloored product \<open>T @ V = 0\<close>, \<open>B\<close> is infinite, \<open>2 * B * A\<close> is NaN,
  and the new basis entry is NaN, which is not a non-negative number. The rules
  \<^verbatim>\<open>update_once_naive\<close> and \<^verbatim>\<open>update_once_mm\<close> of the same class floor the product first.
\<close>

theorem cauchy_me_update_yields_nan:
  "CauchyNMF_init 1 2 ''me'' EPS = Inr cauchy_me_engine
   \<and> nonneg (entries unit_target 0 0) \<and> nonneg (zero_matrix 0 0) \<and> nonneg (half_matrix 0 0)
   \<and> \<not> isl (update_rule cauchy_me_engine unit_target zero_matrix half_matrix)
   \<and> fst (projr (update_rule cauchy_me_engine unit_target zero_matrix half_matrix)) 0 0 = NaN
   \<and> \<not> nonneg (fst (projr (update_rule cauchy_me_engine unit_target zero_matrix half_matrix)) 0 0)"
  by (simp add: CauchyNMF_init_def update_rule_def CauchyNMF_update_once_me_def cauchy_me_engine_def
      NMFbase_init_def unit_target_def zero_matrix_def half_matrix_def EPS_def array_defs Let_def
      inf_signed_def)

text \<open>
  Every other rule keeps the factors non-negative under a supported configuration: see
  \<open>supported_update_once_nonneg\<close>.
\<close>

subsection \<open>Length and sign of the loss trace\<close>















end
